theory Spec2Isabelle
  imports Complex_Main
begin

section \<open>The two renderer programs and the libraries they call\<close>

text \<open>
  The repository holds two programs, \<^verbatim>\<open>opengl_triangle/src/main.cpp\<close> and
  \<^verbatim>\<open>opengl_rectangle_using_indexing/src/main.cpp\<close>. Their \<^verbatim>\<open>main\<close> functions
  differ in the window title, the vertex data, the element buffer and the draw call, so
  one model is written and parameterised by the program.

  A program is a sequence of calls into GLFW, GLAD, OpenGL and \<^verbatim>\<open>std::cout\<close>. The
  model records every such call, in order, in a trace, together with the part of the
  library state that the calls read back (the close flag of the window, the viewport,
  the names of the objects created, the data stores of the buffers). What the libraries
  answer (return values, status queries, log strings, key states, window events) is not
  fixed by the programs; it is the environment \<open>env\<close>, over which every theorem
  quantifies.

  C \<^verbatim>\<open>int\<close>, \<^verbatim>\<open>GLint\<close> and \<^verbatim>\<open>GLsizei\<close> values are HOL integers and
  \<^verbatim>\<open>unsigned int\<close> object names are naturals: the programs pass them on and compare
  them with zero, they never compute with them, so no wrap-around can be observed.
  A \<^verbatim>\<open>float\<close> literal is the real number that its IEEE binary32 value denotes.
\<close>

datatype program = Triangle | Rectangle

type_synonym GLuint = nat

datatype shader_type = GL_VERTEX_SHADER | GL_FRAGMENT_SHADER

datatype buffer_target = GL_ARRAY_BUFFER | GL_ELEMENT_ARRAY_BUFFER

datatype window_hint =
  GLFW_CONTEXT_VERSION_MAJOR
| GLFW_CONTEXT_VERSION_MINOR
| GLFW_OPENGL_PROFILE
| GLFW_OPENGL_FORWARD_COMPAT

datatype hint_value = Number int | GLFW_OPENGL_CORE_PROFILE | GL_TRUE

datatype buffer_data = Floats "real list" | UInts "nat list"

datatype gl_object =
  Shader GLuint
| ShaderProgram GLuint
| Buffer GLuint
| VertexArray GLuint

text \<open>
  One constructor for each library function the programs call, with the arguments that
  vary between call sites. Arguments that are the same constant at every call site are
  left out: the count 1 and the null length array of \<^verbatim>\<open>glShaderSource\<close>, the
  parameter name of the status queries (\<^verbatim>\<open>GL_COMPILE_STATUS\<close> for a shader,
  \<^verbatim>\<open>GL_LINK_STATUS\<close> for a program), the null length pointer of the info-log
  retrievals, the usage \<^verbatim>\<open>GL_STATIC_DRAW\<close>, the type \<^verbatim>\<open>GL_FLOAT\<close> and the flag
  \<^verbatim>\<open>GL_FALSE\<close> of \<^verbatim>\<open>glVertexAttribPointer\<close>, the mask
  \<^verbatim>\<open>GL_COLOR_BUFFER_BIT\<close>, the mode \<^verbatim>\<open>GL_TRIANGLES\<close>, the index type
  \<^verbatim>\<open>GL_UNSIGNED_INT\<close>, the key \<^verbatim>\<open>GLFW_KEY_ESCAPE\<close> and the window handle.
  \<open>Print\<close> is one \<^verbatim>\<open><<\<close> on \<^verbatim>\<open>std::cout\<close>.
\<close>

datatype call =
  GlfwInit
| GlfwWindowHint window_hint hint_value
| GlfwCreateWindow nat nat string
| GlfwTerminate
| GlfwMakeContextCurrent
| GlfwSetFramebufferSizeCallback
| GladLoadGLLoader
| Print string
| GlCreateShader shader_type
| GlShaderSource GLuint string
| GlCompileShader GLuint
| GlGetShaderiv GLuint
| GlGetShaderInfoLog GLuint nat
| GlCreateProgram
| GlAttachShader GLuint GLuint
| GlLinkProgram GLuint
| GlGetProgramiv GLuint
| GlGetProgramInfoLog GLuint nat
| GlDeleteShader GLuint
| GlGenVertexArrays nat
| GlGenBuffers nat
| GlBindVertexArray GLuint
| GlBindBuffer buffer_target GLuint
| GlBufferData buffer_target nat buffer_data
| GlVertexAttribPointer nat nat nat nat
| GlEnableVertexAttribArray nat
| GlfwWindowShouldClose
| GlfwGetKey
| GlfwSetWindowShouldClose bool
| GlClearColor real real real real
| GlClear
| GlUseProgram GLuint
| GlDrawArrays nat nat
| GlDrawElements nat nat
| GlfwSwapBuffers
| GlfwPollEvents
| GlViewport int int int int
| GlDeleteVertexArrays nat GLuint
| GlDeleteBuffers nat GLuint
| GlDeleteProgram GLuint


section \<open>The environment: what the libraries answer\<close>

text \<open>
  \<open>frame_input\<close> is what the window system delivers during one iteration of the
  render loop: whether \<^verbatim>\<open>glfwGetKey(window, GLFW_KEY_ESCAPE)\<close> reads
  \<^verbatim>\<open>GLFW_PRESS\<close>, whether \<^verbatim>\<open>glfwPollEvents\<close> receives a close request, and the
  framebuffer sizes of the resize events that \<^verbatim>\<open>glfwPollEvents\<close> dispatches.
\<close>

record frame_input =
  escape_pressed :: bool
  close_requested :: bool
  resize_events :: "(int \<times> int) list"

text \<open>
  \<open>apple\<close> is the build-time macro \<^verbatim>\<open>__APPLE__\<close>. The other fields are the return
  values of the library functions: the three set-up calls, the object names, the values
  the status queries store into \<^verbatim>\<open>success\<close>, the log strings of the driver, and
  the inputs of frame 0, 1, 2, ... The array \<^verbatim>\<open>infoLog\<close> is declared without an
  initialiser, so its first contents come from the environment too.
\<close>

record env =
  apple :: bool
  glfwInit_result :: bool
  glfwCreateWindow_result :: bool
  gladLoadGLLoader_result :: bool
  glCreateShader_result :: "shader_type \<Rightarrow> GLuint"
  compile_status :: "shader_type \<Rightarrow> int"
  shader_log :: "shader_type \<Rightarrow> string"
  glCreateProgram_result :: GLuint
  link_status :: int
  program_log :: string
  glGenVertexArrays_result :: GLuint
  glGenBuffers_result :: "nat \<Rightarrow> GLuint"
  frames :: "nat \<Rightarrow> frame_input"
  infoLog_uninitialised :: "nat \<Rightarrow> char"
  viewport_initial :: "int \<times> int \<times> int \<times> int"

section \<open>The state the calls act on\<close>

text \<open>
  \<open>trace\<close> is the sequence of library calls made so far. \<open>glfw_initialised\<close>,
  \<open>window_alive\<close>, \<open>resize_callback\<close> and \<open>should_close\<close> belong to GLFW,
  \<open>viewport\<close>, \<open>objects\<close> (the names created and not yet deleted),
  \<open>bound_buffer\<close> and \<open>buffer_store\<close> to the OpenGL context. \<open>infoLog\<close> is the
  program's array \<^verbatim>\<open>char infoLog[512]\<close>, as the memory starting at its first
  element; \<open>overflow\<close> records that a write went past its last element.
  \<open>buffers_generated\<close> counts the calls of \<^verbatim>\<open>glGenBuffers\<close>.
\<close>

record state =
  trace :: "call list"
  glfw_initialised :: bool
  window_alive :: bool
  resize_callback :: bool
  should_close :: bool
  viewport :: "int \<times> int \<times> int \<times> int"
  objects :: "gl_object set"
  bound_buffer :: "buffer_target \<Rightarrow> GLuint"
  buffer_store :: "GLuint \<rightharpoonup> buffer_data"
  buffers_generated :: nat
  infoLog :: "nat \<Rightarrow> char"
  overflow :: bool

definition initial_state :: "env \<Rightarrow> state" where
  "initial_state e =
     \<lparr>trace = [], glfw_initialised = False, window_alive = False,
      resize_callback = False, should_close = False,
      viewport = viewport_initial e, objects = {},
      bound_buffer = (\<lambda>_. 0), buffer_store = Map.empty, buffers_generated = 0,
      infoLog = infoLog_uninitialised e, overflow = False\<rparr>"

definition emit :: "call \<Rightarrow> state \<Rightarrow> state" where
  "emit c s = s\<lparr>trace := trace s @ [c]\<rparr>"

definition newline :: string where
  "newline = [CHR 0x0A]"

definition NUL :: char where
  "NUL = CHR 0x00"

section \<open>GLFW and GLAD\<close>

text \<open>
  Each library function appends its call to the trace and updates the library state as
  its documentation says. A function that returns a value returns it beside the state.
  \<^verbatim>\<open>glfwCreateWindow\<close> creates a window whose close flag is clear;
  \<^verbatim>\<open>glfwTerminate\<close> destroys every window. \<^verbatim>\<open>glfwPollEvents\<close> sets the close
  flag when the user asked to close the window (it never clears it: only a call of
  \<^verbatim>\<open>glfwSetWindowShouldClose\<close> with \<^verbatim>\<open>false\<close> could, and the programs make
  none) and then calls the registered framebuffer-size callback once for each resize
  event.
\<close>

definition glfwInit :: "env \<Rightarrow> state \<Rightarrow> bool \<times> state" where
  "glfwInit e s =
     (glfwInit_result e, emit GlfwInit (s\<lparr>glfw_initialised := glfwInit_result e\<rparr>))"

definition glfwWindowHint :: "window_hint \<Rightarrow> hint_value \<Rightarrow> state \<Rightarrow> state" where
  "glfwWindowHint h v s = emit (GlfwWindowHint h v) s"

definition glfwCreateWindow :: "env \<Rightarrow> nat \<Rightarrow> nat \<Rightarrow> string \<Rightarrow> state \<Rightarrow> bool \<times> state" where
  "glfwCreateWindow e width height title s =
     (glfwCreateWindow_result e,
      emit (GlfwCreateWindow width height title)
        (s\<lparr>window_alive := (if glfwCreateWindow_result e then True else window_alive s),
           should_close := (if glfwCreateWindow_result e then False else should_close s)\<rparr>))"

definition glfwTerminate :: "state \<Rightarrow> state" where
  "glfwTerminate s =
     emit GlfwTerminate (s\<lparr>glfw_initialised := False, window_alive := False\<rparr>)"

definition glfwMakeContextCurrent :: "state \<Rightarrow> state" where
  "glfwMakeContextCurrent s = emit GlfwMakeContextCurrent s"

definition glfwSetFramebufferSizeCallback :: "state \<Rightarrow> state" where
  "glfwSetFramebufferSizeCallback s =
     emit GlfwSetFramebufferSizeCallback (s\<lparr>resize_callback := True\<rparr>)"

definition gladLoadGLLoader :: "env \<Rightarrow> state \<Rightarrow> bool \<times> state" where
  "gladLoadGLLoader e s = (gladLoadGLLoader_result e, emit GladLoadGLLoader s)"

definition glfwWindowShouldClose :: "state \<Rightarrow> bool \<times> state" where
  "glfwWindowShouldClose s = (should_close s, emit GlfwWindowShouldClose s)"

definition glfwGetKey :: "env \<Rightarrow> nat \<Rightarrow> state \<Rightarrow> bool \<times> state" where
  "glfwGetKey e i s = (escape_pressed (frames e i), emit GlfwGetKey s)"

definition glfwSetWindowShouldClose :: "bool \<Rightarrow> state \<Rightarrow> state" where
  "glfwSetWindowShouldClose b s =
     emit (GlfwSetWindowShouldClose b) (s\<lparr>should_close := b\<rparr>)"

definition glfwSwapBuffers :: "state \<Rightarrow> state" where
  "glfwSwapBuffers s = emit GlfwSwapBuffers s"

definition print :: "string \<Rightarrow> state \<Rightarrow> state" where
  "print str s = emit (Print str) s"


section \<open>OpenGL\<close>

text \<open>
  Object creation returns the name the environment supplies; the name 0 means that
  nothing was created. The status queries return the value they store into
  \<^verbatim>\<open>success\<close>. Which shader a name stands for is passed beside the name, since the
  environment is free to hand out any names.
\<close>

definition glCreateShader :: "env \<Rightarrow> shader_type \<Rightarrow> state \<Rightarrow> GLuint \<times> state" where
  "glCreateShader e ty s =
     (let name = glCreateShader_result e ty in
      (name, emit (GlCreateShader ty)
         (s\<lparr>objects := (if name = 0 then objects s else insert (Shader name) (objects s))\<rparr>)))"

definition glShaderSource :: "GLuint \<Rightarrow> string \<Rightarrow> state \<Rightarrow> state" where
  "glShaderSource shader src s = emit (GlShaderSource shader src) s"

definition glCompileShader :: "GLuint \<Rightarrow> state \<Rightarrow> state" where
  "glCompileShader shader s = emit (GlCompileShader shader) s"

definition glGetShaderiv :: "env \<Rightarrow> shader_type \<Rightarrow> GLuint \<Rightarrow> state \<Rightarrow> int \<times> state" where
  "glGetShaderiv e ty shader s = (compile_status e ty, emit (GlGetShaderiv shader) s)"

definition glCreateProgram :: "env \<Rightarrow> state \<Rightarrow> GLuint \<times> state" where
  "glCreateProgram e s =
     (let name = glCreateProgram_result e in
      (name, emit GlCreateProgram
         (s\<lparr>objects :=
              (if name = 0 then objects s else insert (ShaderProgram name) (objects s))\<rparr>)))"

definition glAttachShader :: "GLuint \<Rightarrow> GLuint \<Rightarrow> state \<Rightarrow> state" where
  "glAttachShader prog shader s = emit (GlAttachShader prog shader) s"

definition glLinkProgram :: "GLuint \<Rightarrow> state \<Rightarrow> state" where
  "glLinkProgram prog s = emit (GlLinkProgram prog) s"

definition glGetProgramiv :: "env \<Rightarrow> GLuint \<Rightarrow> state \<Rightarrow> int \<times> state" where
  "glGetProgramiv e prog s = (link_status e, emit (GlGetProgramiv prog) s)"

definition glDeleteShader :: "GLuint \<Rightarrow> state \<Rightarrow> state" where
  "glDeleteShader shader s =
     emit (GlDeleteShader shader) (s\<lparr>objects := objects s - {Shader shader}\<rparr>)"

definition glDeleteProgram :: "GLuint \<Rightarrow> state \<Rightarrow> state" where
  "glDeleteProgram prog s =
     emit (GlDeleteProgram prog) (s\<lparr>objects := objects s - {ShaderProgram prog}\<rparr>)"

subsection \<open>Info logs and the array \<^verbatim>\<open>infoLog\<close>\<close>

text \<open>
  \<^verbatim>\<open>glGetShaderInfoLog(shader, bufSize, length, infoLog)\<close> and
  \<^verbatim>\<open>glGetProgramInfoLog\<close> store as much of the log as fits into \<open>bufSize\<close>
  characters, the terminating null character included, at the address they are given;
  with \<open>bufSize = 0\<close> they store nothing. \<open>write_infoLog\<close> is that store into the
  program's array, whose size is \<open>infoLog_size\<close>. \<open>c_str\<close> is what
  \<^verbatim>\<open>std::cout << infoLog\<close> prints: the characters of the array before the first null.
\<close>

definition infoLog_size :: nat where
  "infoLog_size = 512"

definition info_log_bytes :: "nat \<Rightarrow> string \<Rightarrow> string" where
  "info_log_bytes bufSize msg = (if bufSize = 0 then [] else take (bufSize - 1) msg @ [NUL])"

definition write_infoLog :: "string \<Rightarrow> state \<Rightarrow> state" where
  "write_infoLog bytes s =
     s\<lparr>infoLog := (\<lambda>i. if i < length bytes then bytes ! i else infoLog s i),
       overflow := (overflow s \<or> infoLog_size < length bytes)\<rparr>"

definition glGetShaderInfoLog :: "env \<Rightarrow> shader_type \<Rightarrow> GLuint \<Rightarrow> nat \<Rightarrow> state \<Rightarrow> state" where
  "glGetShaderInfoLog e ty shader bufSize s =
     emit (GlGetShaderInfoLog shader bufSize)
       (write_infoLog (info_log_bytes bufSize (shader_log e ty)) s)"

definition glGetProgramInfoLog :: "env \<Rightarrow> GLuint \<Rightarrow> nat \<Rightarrow> state \<Rightarrow> state" where
  "glGetProgramInfoLog e prog bufSize s =
     emit (GlGetProgramInfoLog prog bufSize)
       (write_infoLog (info_log_bytes bufSize (program_log e)) s)"

definition c_str :: "(nat \<Rightarrow> char) \<Rightarrow> string" where
  "c_str mem = takeWhile (\<lambda>c. c \<noteq> NUL) (map mem [0..<infoLog_size])"

subsection \<open>Buffers, vertex arrays, viewport and drawing\<close>

text \<open>
  \<^verbatim>\<open>glBufferData\<close> replaces the data store of the buffer bound to the target and
  does nothing when no buffer is bound. \<^verbatim>\<open>glViewport\<close> rejects a negative width
  or height and leaves the viewport as it was. The state inside a vertex array object,
  the current program and the framebuffer are not modelled; the calls that act on them
  are recorded in the trace.
\<close>

definition glGenVertexArrays :: "env \<Rightarrow> nat \<Rightarrow> state \<Rightarrow> GLuint \<times> state" where
  "glGenVertexArrays e n s =
     (let name = glGenVertexArrays_result e in
      (name, emit (GlGenVertexArrays n)
         (s\<lparr>objects :=
              (if name = 0 then objects s else insert (VertexArray name) (objects s))\<rparr>)))"

definition glGenBuffers :: "env \<Rightarrow> nat \<Rightarrow> state \<Rightarrow> GLuint \<times> state" where
  "glGenBuffers e n s =
     (let name = glGenBuffers_result e (buffers_generated s) in
      (name, emit (GlGenBuffers n)
         (s\<lparr>buffers_generated := Suc (buffers_generated s),
            objects := (if name = 0 then objects s else insert (Buffer name) (objects s))\<rparr>)))"

definition glBindVertexArray :: "GLuint \<Rightarrow> state \<Rightarrow> state" where
  "glBindVertexArray array s = emit (GlBindVertexArray array) s"

definition glBindBuffer :: "buffer_target \<Rightarrow> GLuint \<Rightarrow> state \<Rightarrow> state" where
  "glBindBuffer target buffer s =
     emit (GlBindBuffer target buffer) (s\<lparr>bound_buffer := (bound_buffer s)(target := buffer)\<rparr>)"

definition glBufferData :: "buffer_target \<Rightarrow> nat \<Rightarrow> buffer_data \<Rightarrow> state \<Rightarrow> state" where
  "glBufferData target nbytes content s =
     emit (GlBufferData target nbytes content)
       (s\<lparr>buffer_store :=
            (if bound_buffer s target = 0 then buffer_store s
             else (buffer_store s)(bound_buffer s target \<mapsto> content))\<rparr>)"

definition glVertexAttribPointer :: "nat \<Rightarrow> nat \<Rightarrow> nat \<Rightarrow> nat \<Rightarrow> state \<Rightarrow> state" where
  "glVertexAttribPointer index components stride pointer s =
     emit (GlVertexAttribPointer index components stride pointer) s"

definition glEnableVertexAttribArray :: "nat \<Rightarrow> state \<Rightarrow> state" where
  "glEnableVertexAttribArray index s = emit (GlEnableVertexAttribArray index) s"

definition glDeleteVertexArrays :: "nat \<Rightarrow> GLuint \<Rightarrow> state \<Rightarrow> state" where
  "glDeleteVertexArrays n array s =
     emit (GlDeleteVertexArrays n array) (s\<lparr>objects := objects s - {VertexArray array}\<rparr>)"

definition glDeleteBuffers :: "nat \<Rightarrow> GLuint \<Rightarrow> state \<Rightarrow> state" where
  "glDeleteBuffers n buffer s =
     emit (GlDeleteBuffers n buffer)
       (s\<lparr>objects := objects s - {Buffer buffer},
          buffer_store := (buffer_store s)(buffer := None),
          bound_buffer := (\<lambda>t. if bound_buffer s t = buffer then 0 else bound_buffer s t)\<rparr>)"

definition glClearColor :: "real \<Rightarrow> real \<Rightarrow> real \<Rightarrow> real \<Rightarrow> state \<Rightarrow> state" where
  "glClearColor r g b a s = emit (GlClearColor r g b a) s"

definition glClear :: "state \<Rightarrow> state" where
  "glClear s = emit GlClear s"

definition glUseProgram :: "GLuint \<Rightarrow> state \<Rightarrow> state" where
  "glUseProgram prog s = emit (GlUseProgram prog) s"

definition glDrawArrays :: "nat \<Rightarrow> nat \<Rightarrow> state \<Rightarrow> state" where
  "glDrawArrays first count s = emit (GlDrawArrays first count) s"

definition glDrawElements :: "nat \<Rightarrow> nat \<Rightarrow> state \<Rightarrow> state" where
  "glDrawElements count offset s = emit (GlDrawElements count offset) s"

definition glViewport :: "int \<Rightarrow> int \<Rightarrow> int \<Rightarrow> int \<Rightarrow> state \<Rightarrow> state" where
  "glViewport x y width height s =
     emit (GlViewport x y width height)
       (s\<lparr>viewport :=
            (if width < 0 \<or> height < 0 then viewport s else (x, y, width, height))\<rparr>)"

section \<open>The programs\<close>

subsection \<open>Constants\<close>

definition SCR_WIDTH :: nat where
  "SCR_WIDTH = 800"

definition SCR_HEIGHT :: nat where
  "SCR_HEIGHT = 600"

text \<open>
  The shader sources are raw string literals: the text between \<^verbatim>\<open>R"(\<close> and
  \<^verbatim>\<open>)"\<close>, which begins with the newline behind \<^verbatim>\<open>R"(\<close> and then has
  the lines of the shader, each ended by a newline.
\<close>

definition source_text :: "string list \<Rightarrow> string" where
  "source_text ls = concat (map (\<lambda>l. l @ newline) ls)"

definition vertexShaderSource :: string where
  "vertexShaderSource = newline @ source_text
     [''#version 330 core'',
      ''layout (location = 0) in vec3 aPos;'',
      '''',
      ''void main()'',
      ''{'',
      ''    // OpenGL clip space is [-1, +1]'',
      ''    gl_Position = vec4(aPos, 1.0);'',
      ''}'']"

definition fragmentShaderSource :: string where
  "fragmentShaderSource = newline @ source_text
     [''#version 330 core'',
      ''out vec4 FragColor;'',
      '''',
      ''void main()'',
      ''{'',
      ''    FragColor = vec4(1.0, 0.5, 0.6, 1.0);'',
      ''}'']"

definition window_title :: "program \<Rightarrow> string" where
  "window_title p =
     (case p of
        Triangle \<Rightarrow> ''OpenGL Beginner Renderer : My First OpenGL TRIANGLE''
      | Rectangle \<Rightarrow> ''OpenGL Beginner Renderer : My OpenGL RECTANGLE using indexed vertices'')"

text \<open>
  The local arrays \<^verbatim>\<open>vertices\<close> and \<^verbatim>\<open>indices\<close>. The literals \<^verbatim>\<open>0.5f\<close>,
  \<^verbatim>\<open>-0.5f\<close> and \<^verbatim>\<open>0.0f\<close> are exact in binary32. The clear colour literals
  \<^verbatim>\<open>0.1f\<close> and \<^verbatim>\<open>0.15f\<close> are not, so \<open>clear_red\<close> and \<open>clear_blue\<close> are the
  binary32 values nearest to one tenth and to fifteen hundredths.
\<close>

definition vertices :: "program \<Rightarrow> real list" where
  "vertices p =
     (case p of
        Triangle \<Rightarrow>
          [- 0.5, - 0.5, 0.0,
             0.5, - 0.5, 0.0,
             0.0,   0.5, 0.0]
      | Rectangle \<Rightarrow>
          [  0.5,   0.5, 0.0,
             0.5, - 0.5, 0.0,
           - 0.5, - 0.5, 0.0,
           - 0.5,   0.5, 0.0])"

definition indices :: "nat list" where
  "indices = [0, 1, 3, 1, 2, 3]"

definition sizeof_float :: nat where
  "sizeof_float = 4"

definition sizeof_unsigned_int :: nat where
  "sizeof_unsigned_int = 4"

definition clear_red :: real where
  "clear_red = 13421773 / 134217728"

definition clear_blue :: real where
  "clear_blue = 5033165 / 33554432"

subsection \<open>The callbacks\<close>

definition framebuffer_size_callback :: "int \<Rightarrow> int \<Rightarrow> state \<Rightarrow> state" where
  "framebuffer_size_callback width height s = glViewport 0 0 width height s"

definition processInput :: "env \<Rightarrow> nat \<Rightarrow> state \<Rightarrow> state" where
  "processInput e i s =
     (let (pressed, s) = glfwGetKey e i s in
      if pressed then glfwSetWindowShouldClose True s else s)"

text \<open>
  \<^verbatim>\<open>glfwPollEvents\<close> is a library function; it stands here because it calls back
  into the program.
\<close>

definition glfwPollEvents :: "env \<Rightarrow> nat \<Rightarrow> state \<Rightarrow> state" where
  "glfwPollEvents e i s =
     (let s = emit GlfwPollEvents s;
          s = s\<lparr>should_close := (if close_requested (frames e i) then True else should_close s)\<rparr>
      in if resize_callback s
         then fold (\<lambda>(width, height). framebuffer_size_callback width height)
                (resize_events (frames e i)) s
         else s)"

subsection \<open>Sections 4 to 6 of \<^verbatim>\<open>main\<close>: shaders and geometry\<close>

definition build_shaders :: "env \<Rightarrow> state \<Rightarrow> GLuint \<times> state" where
  "build_shaders e s =
     (let (vertexShader, s) = glCreateShader e GL_VERTEX_SHADER s;
          s = glShaderSource vertexShader vertexShaderSource s;
          s = glCompileShader vertexShader s;
          (success, s) = glGetShaderiv e GL_VERTEX_SHADER vertexShader s;
          s = (if success = 0 then
                 let s = glGetShaderInfoLog e GL_VERTEX_SHADER vertexShader 512 s;
                     s = print (''Vertex Shader Error:'' @ newline) s;
                     s = print (c_str (infoLog s)) s
                 in print newline s
               else s);
          (fragmentShader, s) = glCreateShader e GL_FRAGMENT_SHADER s;
          s = glShaderSource fragmentShader fragmentShaderSource s;
          s = glCompileShader fragmentShader s;
          (success, s) = glGetShaderiv e GL_FRAGMENT_SHADER fragmentShader s;
          s = (if success = 0 then
                 let s = glGetShaderInfoLog e GL_FRAGMENT_SHADER fragmentShader 512 s;
                     s = print (''Fragment Shader Error:'' @ newline) s;
                     s = print (c_str (infoLog s)) s
                 in print newline s
               else s);
          (shaderProgram, s) = glCreateProgram e s;
          s = glAttachShader shaderProgram vertexShader s;
          s = glAttachShader shaderProgram fragmentShader s;
          s = glLinkProgram shaderProgram s;
          (success, s) = glGetProgramiv e shaderProgram s;
          s = (if success = 0 then
                 let s = glGetProgramInfoLog e shaderProgram 512 s;
                     s = print (''Shader Link Error:'' @ newline) s;
                     s = print (c_str (infoLog s)) s
                 in print newline s
               else s);
          s = glDeleteShader vertexShader s;
          s = glDeleteShader fragmentShader s
      in (shaderProgram, s))"

text \<open>
  The triangle program has no element buffer, so \<^verbatim>\<open>EBO\<close> is optional in the model.
\<close>

definition upload_geometry :: "program \<Rightarrow> env \<Rightarrow> state \<Rightarrow> GLuint \<times> GLuint \<times> GLuint option \<times> state" where
  "upload_geometry p e s =
     (case p of
        Triangle \<Rightarrow>
          (let (VAO, s) = glGenVertexArrays e 1 s;
               (VBO, s) = glGenBuffers e 1 s;
               s = glBindVertexArray VAO s;
               s = glBindBuffer GL_ARRAY_BUFFER VBO s;
               s = glBufferData GL_ARRAY_BUFFER (sizeof_float * length (vertices p))
                     (Floats (vertices p)) s;
               s = glVertexAttribPointer 0 3 (3 * sizeof_float) 0 s;
               s = glEnableVertexAttribArray 0 s;
               s = glBindBuffer GL_ARRAY_BUFFER 0 s;
               s = glBindVertexArray 0 s
           in (VAO, VBO, None, s))
      | Rectangle \<Rightarrow>
          (let (VAO, s) = glGenVertexArrays e 1 s;
               (VBO, s) = glGenBuffers e 1 s;
               (EBO, s) = glGenBuffers e 1 s;
               s = glBindVertexArray VAO s;
               s = glBindBuffer GL_ARRAY_BUFFER VBO s;
               s = glBufferData GL_ARRAY_BUFFER (sizeof_float * length (vertices p))
                     (Floats (vertices p)) s;
               s = glBindBuffer GL_ELEMENT_ARRAY_BUFFER EBO s;
               s = glBufferData GL_ELEMENT_ARRAY_BUFFER (sizeof_unsigned_int * length indices)
                     (UInts indices) s;
               s = glVertexAttribPointer 0 3 (3 * sizeof_float) 0 s;
               s = glEnableVertexAttribArray 0 s;
               s = glBindBuffer GL_ARRAY_BUFFER 0 s;
               s = glBindVertexArray 0 s
           in (VAO, VBO, Some EBO, s)))"

subsection \<open>Section 7: the render loop\<close>

definition draw :: "program \<Rightarrow> state \<Rightarrow> state" where
  "draw p s = (case p of Triangle \<Rightarrow> glDrawArrays 0 3 s | Rectangle \<Rightarrow> glDrawElements 6 0 s)"

definition loop_body :: "program \<Rightarrow> env \<Rightarrow> GLuint \<Rightarrow> GLuint \<Rightarrow> nat \<Rightarrow> state \<Rightarrow> state" where
  "loop_body p e shaderProgram VAO i s =
     (let s = processInput e i s;
          s = glClearColor clear_red clear_red clear_blue 1.0 s;
          s = glClear s;
          s = glUseProgram shaderProgram s;
          s = glBindVertexArray VAO s;
          s = draw p s;
          s = glfwSwapBuffers s
      in glfwPollEvents e i s)"

text \<open>
  \<^verbatim>\<open>while (!glfwWindowShouldClose(window)) { ... }\<close>. The loop runs for as long as
  the close flag is clear, which may be for ever, so the model takes fuel: one unit for
  each evaluation of the loop condition, and \<open>None\<close> when the fuel is used up before
  the loop is left. \<open>i\<close> is the number of the frame, counted from 0.
\<close>

fun render_loop :: "program \<Rightarrow> env \<Rightarrow> GLuint \<Rightarrow> GLuint \<Rightarrow> nat \<Rightarrow> nat \<Rightarrow> state \<Rightarrow> state option" where
  "render_loop p e shaderProgram VAO 0 i s = None"
| "render_loop p e shaderProgram VAO (Suc fuel) i s =
     (let (closing, s) = glfwWindowShouldClose s in
      if closing then Some s
      else render_loop p e shaderProgram VAO fuel (Suc i) (loop_body p e shaderProgram VAO i s))"

subsection \<open>Section 8: cleanup\<close>

definition cleanup :: "GLuint \<Rightarrow> GLuint \<Rightarrow> GLuint \<Rightarrow> GLuint option \<Rightarrow> state \<Rightarrow> state" where
  "cleanup shaderProgram VAO VBO EBO s =
     (let s = glDeleteVertexArrays 1 VAO s;
          s = glDeleteBuffers 1 VBO s;
          s = (case EBO of None \<Rightarrow> s | Some ebo \<Rightarrow> glDeleteBuffers 1 ebo s);
          s = glDeleteProgram shaderProgram s
      in glfwTerminate s)"

subsection \<open>\<^verbatim>\<open>main\<close>\<close>

text \<open>
  \<open>startup\<close> is \<^verbatim>\<open>main\<close> from its first statement to the statement before the
  render loop. It ends either with a return (\<open>Inl\<close>: the exit status and the final
  state) or at the loop (\<open>Inr\<close>: the local variables \<^verbatim>\<open>shaderProgram\<close>, \<^verbatim>\<open>VAO\<close>,
  \<^verbatim>\<open>VBO\<close>, \<^verbatim>\<open>EBO\<close> and the state). \<open>main\<close> is the whole function: \<open>None\<close> when
  the fuel does not suffice for the loop, else the exit status and the final state.
\<close>

definition startup :: "program \<Rightarrow> env \<Rightarrow> (int \<times> state) + (GLuint \<times> GLuint \<times> GLuint \<times> GLuint option \<times> state)" where
  "startup p e =
     (let s = initial_state e;
          s = snd (glfwInit e s);
          s = glfwWindowHint GLFW_CONTEXT_VERSION_MAJOR (Number 3) s;
          s = glfwWindowHint GLFW_CONTEXT_VERSION_MINOR (Number 3) s;
          s = glfwWindowHint GLFW_OPENGL_PROFILE GLFW_OPENGL_CORE_PROFILE s;
          s = (if apple e then glfwWindowHint GLFW_OPENGL_FORWARD_COMPAT GL_TRUE s else s);
          (window, s) = glfwCreateWindow e SCR_WIDTH SCR_HEIGHT (window_title p) s
      in if \<not> window then
           (let s = print (''Failed to create GLFW window'' @ newline) s;
                s = glfwTerminate s
            in Inl (- 1, s))
         else
           (let s = glfwMakeContextCurrent s;
                s = glfwSetFramebufferSizeCallback s;
                (loaded, s) = gladLoadGLLoader e s
            in if \<not> loaded then
                 (let s = print (''Failed to initialize GLAD'' @ newline) s
                  in Inl (- 1, s))
               else
                 (let (shaderProgram, s) = build_shaders e s;
                      (VAO, VBO, EBO, s) = upload_geometry p e s
                  in Inr (shaderProgram, VAO, VBO, EBO, s))))"

definition main :: "program \<Rightarrow> env \<Rightarrow> nat \<Rightarrow> (int \<times> state) option" where
  "main p e fuel =
     (case startup p e of
        Inl r \<Rightarrow> Some r
      | Inr (shaderProgram, VAO, VBO, EBO, s) \<Rightarrow>
          (case render_loop p e shaderProgram VAO fuel 0 s of
             None \<Rightarrow> None
           | Some s \<Rightarrow> Some (0, cleanup shaderProgram VAO VBO EBO s)))"

section \<open>Observations on a run\<close>

text \<open>
  The definitions from here on are not code of the programs. They name the
  observations the theorems are about (what was printed, which calls were draw calls)
  and they spell out, in the words of the specification, the call sequences that the
  theorems compare with the traces of the model.
\<close>

definition printed :: "call list \<Rightarrow> string list" where
  "printed t = concat (map (\<lambda>c. case c of Print str \<Rightarrow> [str] | _ \<Rightarrow> []) t)"

definition is_draw :: "call \<Rightarrow> bool" where
  "is_draw c = (case c of GlDrawArrays first n \<Rightarrow> True | GlDrawElements n offset \<Rightarrow> True | _ \<Rightarrow> False)"

definition draw_calls :: "call list \<Rightarrow> call list" where
  "draw_calls t = filter is_draw t"

definition info_log_sizes :: "call list \<Rightarrow> nat list" where
  "info_log_sizes t =
     concat (map (\<lambda>c. case c of GlGetShaderInfoLog shader n \<Rightarrow> [n]
                           | GlGetProgramInfoLog prog n \<Rightarrow> [n] | _ \<Rightarrow> []) t)"

text \<open>
  \<open>closes e i\<close>: frame \<open>i\<close> brings a reason to leave the loop, the Escape key or a
  close request.
\<close>

definition closes :: "env \<Rightarrow> nat \<Rightarrow> bool" where
  "closes e i = (escape_pressed (frames e i) \<or> close_requested (frames e i))"

text \<open>
  The log string of a diagnostic: the first 511 characters of the driver's log, up to
  its first null character if it has one.
\<close>

definition printed_log :: "string \<Rightarrow> string" where
  "printed_log msg = takeWhile (\<lambda>c. c \<noteq> NUL) (take 511 msg)"

definition diagnostic :: "string \<Rightarrow> int \<Rightarrow> string \<Rightarrow> string list" where
  "diagnostic header status msg =
     (if status = 0 then [header @ newline, printed_log msg, newline] else [])"

definition diagnostics :: "env \<Rightarrow> string list" where
  "diagnostics e =
     diagnostic ''Vertex Shader Error:'' (compile_status e GL_VERTEX_SHADER)
       (shader_log e GL_VERTEX_SHADER) @
     diagnostic ''Fragment Shader Error:'' (compile_status e GL_FRAGMENT_SHADER)
       (shader_log e GL_FRAGMENT_SHADER) @
     diagnostic ''Shader Link Error:'' (link_status e) (program_log e)"

definition window_hints :: "env \<Rightarrow> call list" where
  "window_hints e =
     [GlfwWindowHint GLFW_CONTEXT_VERSION_MAJOR (Number 3),
      GlfwWindowHint GLFW_CONTEXT_VERSION_MINOR (Number 3),
      GlfwWindowHint GLFW_OPENGL_PROFILE GLFW_OPENGL_CORE_PROFILE] @
     (if apple e then [GlfwWindowHint GLFW_OPENGL_FORWARD_COMPAT GL_TRUE] else [])"

definition window_calls :: "program \<Rightarrow> env \<Rightarrow> call list" where
  "window_calls p e =
     [GlfwInit] @ window_hints e @ [GlfwCreateWindow SCR_WIDTH SCR_HEIGHT (window_title p)]"

definition compile_calls :: "env \<Rightarrow> shader_type \<Rightarrow> string \<Rightarrow> string \<Rightarrow> call list" where
  "compile_calls e ty src header =
     [GlCreateShader ty,
      GlShaderSource (glCreateShader_result e ty) src,
      GlCompileShader (glCreateShader_result e ty),
      GlGetShaderiv (glCreateShader_result e ty)] @
     (if compile_status e ty = 0
      then [GlGetShaderInfoLog (glCreateShader_result e ty) 512] else []) @
     map Print (diagnostic header (compile_status e ty) (shader_log e ty))"

definition link_calls :: "env \<Rightarrow> call list" where
  "link_calls e =
     [GlCreateProgram,
      GlAttachShader (glCreateProgram_result e) (glCreateShader_result e GL_VERTEX_SHADER),
      GlAttachShader (glCreateProgram_result e) (glCreateShader_result e GL_FRAGMENT_SHADER),
      GlLinkProgram (glCreateProgram_result e),
      GlGetProgramiv (glCreateProgram_result e)] @
     (if link_status e = 0 then [GlGetProgramInfoLog (glCreateProgram_result e) 512] else []) @
     map Print (diagnostic ''Shader Link Error:'' (link_status e) (program_log e))"

definition build_calls :: "env \<Rightarrow> call list" where
  "build_calls e =
     compile_calls e GL_VERTEX_SHADER vertexShaderSource ''Vertex Shader Error:'' @
     compile_calls e GL_FRAGMENT_SHADER fragmentShaderSource ''Fragment Shader Error:'' @
     link_calls e @
     [GlDeleteShader (glCreateShader_result e GL_VERTEX_SHADER),
      GlDeleteShader (glCreateShader_result e GL_FRAGMENT_SHADER)]"

text \<open>
  The names the programs hold in \<^verbatim>\<open>shaderProgram\<close>, \<^verbatim>\<open>VAO\<close>, \<^verbatim>\<open>VBO\<close> and
  \<^verbatim>\<open>EBO\<close> when they reach the loop.
\<close>

definition the_program :: "env \<Rightarrow> GLuint" where
  "the_program e = glCreateProgram_result e"

definition the_VAO :: "env \<Rightarrow> GLuint" where
  "the_VAO e = glGenVertexArrays_result e"

definition the_VBO :: "env \<Rightarrow> GLuint" where
  "the_VBO e = glGenBuffers_result e 0"

definition the_EBO :: "program \<Rightarrow> env \<Rightarrow> GLuint option" where
  "the_EBO p e = (case p of Triangle \<Rightarrow> None | Rectangle \<Rightarrow> Some (glGenBuffers_result e 1))"

definition geometry_calls :: "program \<Rightarrow> env \<Rightarrow> call list" where
  "geometry_calls p e =
     (case p of
        Triangle \<Rightarrow>
          [GlGenVertexArrays 1, GlGenBuffers 1,
           GlBindVertexArray (the_VAO e),
           GlBindBuffer GL_ARRAY_BUFFER (the_VBO e),
           GlBufferData GL_ARRAY_BUFFER 36 (Floats (vertices Triangle)),
           GlVertexAttribPointer 0 3 12 0, GlEnableVertexAttribArray 0,
           GlBindBuffer GL_ARRAY_BUFFER 0, GlBindVertexArray 0]
      | Rectangle \<Rightarrow>
          [GlGenVertexArrays 1, GlGenBuffers 1, GlGenBuffers 1,
           GlBindVertexArray (the_VAO e),
           GlBindBuffer GL_ARRAY_BUFFER (the_VBO e),
           GlBufferData GL_ARRAY_BUFFER 48 (Floats (vertices Rectangle)),
           GlBindBuffer GL_ELEMENT_ARRAY_BUFFER (glGenBuffers_result e 1),
           GlBufferData GL_ELEMENT_ARRAY_BUFFER 24 (UInts indices),
           GlVertexAttribPointer 0 3 12 0, GlEnableVertexAttribArray 0,
           GlBindBuffer GL_ARRAY_BUFFER 0, GlBindVertexArray 0])"

definition startup_calls :: "program \<Rightarrow> env \<Rightarrow> call list" where
  "startup_calls p e =
     window_calls p e @
     [GlfwMakeContextCurrent, GlfwSetFramebufferSizeCallback, GladLoadGLLoader] @
     build_calls e @ geometry_calls p e"

text \<open>
  One iteration of the render loop as the specification words it: poll the Escape key
  and set the close flag if it is pressed, clear to the background colour, activate the
  program, activate the geometry binding, one draw call, present the frame, process
  the pending events (which runs the resize responder once for each resize event).
\<close>

definition the_draw_call :: "program \<Rightarrow> call" where
  "the_draw_call p = (case p of Triangle \<Rightarrow> GlDrawArrays 0 3 | Rectangle \<Rightarrow> GlDrawElements 6 0)"

definition frame_calls :: "program \<Rightarrow> env \<Rightarrow> nat \<Rightarrow> call list" where
  "frame_calls p e i =
     [GlfwGetKey] @
     (if escape_pressed (frames e i) then [GlfwSetWindowShouldClose True] else []) @
     [GlClearColor clear_red clear_red clear_blue 1, GlClear,
      GlUseProgram (the_program e), GlBindVertexArray (the_VAO e),
      the_draw_call p, GlfwSwapBuffers, GlfwPollEvents] @
     map (\<lambda>(width, height). GlViewport 0 0 width height) (resize_events (frames e i))"

text \<open>
  The calls of \<open>k\<close> iterations that start at frame \<open>i\<close>, each behind the
  evaluation of the loop condition that let it run, and the evaluation that ends the loop.
\<close>

definition loop_calls :: "program \<Rightarrow> env \<Rightarrow> nat \<Rightarrow> nat \<Rightarrow> call list" where
  "loop_calls p e i k =
     concat (map (\<lambda>j. GlfwWindowShouldClose # frame_calls p e j) [i..<i + k]) @
     [GlfwWindowShouldClose]"

definition cleanup_calls :: "program \<Rightarrow> env \<Rightarrow> call list" where
  "cleanup_calls p e =
     [GlDeleteVertexArrays 1 (the_VAO e), GlDeleteBuffers 1 (the_VBO e)] @
     (case the_EBO p e of None \<Rightarrow> [] | Some ebo \<Rightarrow> [GlDeleteBuffers 1 ebo]) @
     [GlDeleteProgram (the_program e), GlfwTerminate]"

definition exit_status :: "(int \<times> state) option \<Rightarrow> int option" where
  "exit_status r = map_option fst r"

definition calls_made :: "(int \<times> state) option \<Rightarrow> call list option" where
  "calls_made r = map_option (\<lambda>(status, s). trace s) r"

definition startup_trace :: "(int \<times> state) + (GLuint \<times> GLuint \<times> GLuint \<times> GLuint option \<times> state) \<Rightarrow> call list" where
  "startup_trace r =
     (case r of Inl (status, s) \<Rightarrow> trace s | Inr (shaderProgram, VAO, VBO, EBO, s) \<Rightarrow> trace s)"

subsection \<open>Frame conditions and loop termination\<close>

text \<open>
  \<open>untouched s s'\<close>: the fields that neither the shader build nor the geometry upload
  changes. \<open>loop_frame s s'\<close>: the fields the render loop does not change (all but the
  trace, the close flag and the viewport). \<open>loop_entry p e s\<close>: what holds of the
  state when \<^verbatim>\<open>main\<close> reaches the loop; \<open>names_valid p e\<close>: every object the program
  creates got a name other than 0. \<open>first_close e i n\<close>: counted from frame
  \<open>i\<close>, frame \<open>i + n\<close> is the first that brings a reason to leave the loop.
\<close>

definition untouched :: "state \<Rightarrow> state \<Rightarrow> bool" where
  "untouched s s' \<longleftrightarrow>
     glfw_initialised s' = glfw_initialised s \<and> window_alive s' = window_alive s \<and>
     resize_callback s' = resize_callback s \<and> should_close s' = should_close s \<and>
     viewport s' = viewport s \<and> overflow s' = overflow s"

definition loop_frame :: "state \<Rightarrow> state \<Rightarrow> bool" where
  "loop_frame s s' \<longleftrightarrow>
     glfw_initialised s' = glfw_initialised s \<and> window_alive s' = window_alive s \<and>
     resize_callback s' = resize_callback s \<and> objects s' = objects s \<and>
     bound_buffer s' = bound_buffer s \<and> buffer_store s' = buffer_store s \<and>
     buffers_generated s' = buffers_generated s \<and> infoLog s' = infoLog s \<and>
     overflow s' = overflow s"

definition geometry_objects :: "program \<Rightarrow> env \<Rightarrow> gl_object set" where
  "geometry_objects p e =
     {VertexArray (the_VAO e), Buffer (the_VBO e)} \<union>
     (case the_EBO p e of None \<Rightarrow> {} | Some ebo \<Rightarrow> {Buffer ebo})"

definition names_valid :: "program \<Rightarrow> env \<Rightarrow> bool" where
  "names_valid p e \<longleftrightarrow>
     the_program e \<noteq> 0 \<and> the_VAO e \<noteq> 0 \<and> the_VBO e \<noteq> 0 \<and>
     (case the_EBO p e of None \<Rightarrow> True | Some ebo \<Rightarrow> ebo \<noteq> 0)"

definition loop_entry :: "program \<Rightarrow> env \<Rightarrow> state \<Rightarrow> bool" where
  "loop_entry p e s \<longleftrightarrow>
     trace s = startup_calls p e \<and> \<not> should_close s \<and> resize_callback s \<and>
     window_alive s \<and> glfw_initialised s = glfwInit_result e \<and> \<not> overflow s \<and>
     viewport s = viewport_initial e \<and>
     objects s \<subseteq> insert (ShaderProgram (the_program e)) (geometry_objects p e) \<and>
     (names_valid p e \<longrightarrow>
        objects s = insert (ShaderProgram (the_program e)) (geometry_objects p e))"

definition first_close :: "env \<Rightarrow> nat \<Rightarrow> nat \<Rightarrow> bool" where
  "first_close e i n \<longleftrightarrow> closes e (i + n) \<and> (\<forall>j<n. \<not> closes e (i + j))"

subsection \<open>The geometry a draw call selects\<close>

text \<open>
  \<^verbatim>\<open>glVertexAttribPointer(0, 3, GL_FLOAT, GL_FALSE, 3 * sizeof(float), (void*)0)\<close>
  makes vertex \<open>i\<close> the three floats at positions \<open>3i\<close>, \<open>3i + 1\<close>, \<open>3i + 2\<close> of
  the vertex buffer; a vertex beyond the buffer does not exist. The vertex shader
  outputs \<^verbatim>\<open>vec4(aPos, 1.0)\<close>, and the point drawn is that position divided by its
  fourth component. With the mode \<^verbatim>\<open>GL_TRIANGLES\<close> every three consecutive vertices
  make one triangle. \<^verbatim>\<open>glDrawArrays\<close> takes the vertices \<open>first\<close>, \<open>first + 1\<close>,
  ...; \<^verbatim>\<open>glDrawElements\<close> takes the vertices that the first \<open>count\<close> entries of the
  element buffer name.
\<close>

type_synonym point = "real \<times> real"

definition fetch_vertex :: "real list \<Rightarrow> nat \<Rightarrow> (real \<times> real \<times> real) option" where
  "fetch_vertex vs i =
     (if 3 * i + 2 < length vs then Some (vs ! (3 * i), vs ! (3 * i + 1), vs ! (3 * i + 2))
      else None)"

definition vertex_shader :: "real \<times> real \<times> real \<Rightarrow> real \<times> real \<times> real \<times> real" where
  "vertex_shader aPos = (case aPos of (x, y, z) \<Rightarrow> (x, y, z, 1.0))"

definition screen_point :: "real \<times> real \<times> real \<times> real \<Rightarrow> point" where
  "screen_point gl_Position = (case gl_Position of (x, y, z, w) \<Rightarrow> (x / w, y / w))"

definition vertex_point :: "real list \<Rightarrow> nat \<Rightarrow> point option" where
  "vertex_point vs i = map_option (\<lambda>v. screen_point (vertex_shader v)) (fetch_vertex vs i)"

fun triangle_list :: "'a list \<Rightarrow> ('a \<times> 'a \<times> 'a) list" where
  "triangle_list (a # b # c # rest) = (a, b, c) # triangle_list rest"
| "triangle_list rest = []"

definition draw_arrays_triangles :: "real list \<Rightarrow> nat \<Rightarrow> nat \<Rightarrow> (point option \<times> point option \<times> point option) list" where
  "draw_arrays_triangles vs first n = triangle_list (map (vertex_point vs) [first..<first + n])"

definition draw_elements_triangles :: "real list \<Rightarrow> nat list \<Rightarrow> nat \<Rightarrow> (point option \<times> point option \<times> point option) list" where
  "draw_elements_triangles vs ixs n = triangle_list (map (vertex_point vs) (take n ixs))"

text \<open>
  Plane geometry. \<open>edge a b q\<close> is twice the signed area of the triangle \<open>a b q\<close>:
  positive when \<open>q\<close> lies to the left of the line from \<open>a\<close> to \<open>b\<close>, zero when it
  lies on the line. A point belongs to a triangle, or to a convex quadrilateral given by
  its corners in order, when it lies on the same side of all edges; it is interior when
  it lies strictly on that side. \<open>on_segment a b q\<close>: \<open>q\<close> lies on the line through
  \<open>a\<close> and \<open>b\<close>, between the two.
\<close>

definition edge :: "point \<Rightarrow> point \<Rightarrow> point \<Rightarrow> real" where
  "edge a b q = (fst b - fst a) * (snd q - snd a) - (snd b - snd a) * (fst q - fst a)"

definition in_triangle :: "point \<times> point \<times> point \<Rightarrow> point \<Rightarrow> bool" where
  "in_triangle t q =
     (case t of (a, b, c) \<Rightarrow>
        (0 \<le> edge a b q \<and> 0 \<le> edge b c q \<and> 0 \<le> edge c a q) \<or>
        (edge a b q \<le> 0 \<and> edge b c q \<le> 0 \<and> edge c a q \<le> 0))"

definition interior :: "point \<times> point \<times> point \<Rightarrow> point \<Rightarrow> bool" where
  "interior t q =
     (case t of (a, b, c) \<Rightarrow>
        (0 < edge a b q \<and> 0 < edge b c q \<and> 0 < edge c a q) \<or>
        (edge a b q < 0 \<and> edge b c q < 0 \<and> edge c a q < 0))"

definition in_quad :: "point \<times> point \<times> point \<times> point \<Rightarrow> point \<Rightarrow> bool" where
  "in_quad r q =
     (case r of (a, b, c, d) \<Rightarrow>
        (0 \<le> edge a b q \<and> 0 \<le> edge b c q \<and> 0 \<le> edge c d q \<and> 0 \<le> edge d a q) \<or>
        (edge a b q \<le> 0 \<and> edge b c q \<le> 0 \<and> edge c d q \<le> 0 \<and> edge d a q \<le> 0))"

definition on_segment :: "point \<Rightarrow> point \<Rightarrow> point \<Rightarrow> bool" where
  "on_segment a b q \<longleftrightarrow>
     edge a b q = 0 \<and>
     min (fst a) (fst b) \<le> fst q \<and> fst q \<le> max (fst a) (fst b) \<and>
     min (snd a) (snd b) \<le> snd q \<and> snd q \<le> max (snd a) (snd b)"

definition hull3 :: "point \<times> point \<times> point \<Rightarrow> point \<Rightarrow> bool" where
  "hull3 t q =
     (case t of (a, b, c) \<Rightarrow>
        \<exists>u v w. 0 \<le> u \<and> 0 \<le> v \<and> 0 \<le> w \<and> u + v + w = 1 \<and>
          fst q = u * fst a + v * fst b + w * fst c \<and>
          snd q = u * snd a + v * snd b + w * snd c)"

text \<open>
  The corners of the rectangle as the specification lists them, the two triangles it
  says are drawn (corners 0, 1, 3 and corners 1, 2, 3), and the quad the corners span.
\<close>

definition corners :: "point list" where
  "corners = [(0.5, 0.5), (0.5, - 0.5), (- 0.5, - 0.5), (- 0.5, 0.5)]"

definition first_triangle :: "point \<times> point \<times> point" where
  "first_triangle = (corners ! 0, corners ! 1, corners ! 3)"

definition second_triangle :: "point \<times> point \<times> point" where
  "second_triangle = (corners ! 1, corners ! 2, corners ! 3)"

definition the_quad :: "point \<times> point \<times> point \<times> point" where
  "the_quad = (corners ! 0, corners ! 1, corners ! 2, corners ! 3)"

subsection \<open>Environments for the examples\<close>

text \<open>
  \<open>demo_env\<close>: everything succeeds, a resize to 1024 by 768 arrives in frame 1, and the
  Escape key is down in frame 2. \<open>broken_env\<close>: as \<open>demo_env\<close>, but the vertex shader
  fails to compile and the program fails to link, each with a log.
\<close>

definition demo_env :: env where
  "demo_env =
     \<lparr>apple = False, glfwInit_result = True, glfwCreateWindow_result = True,
      gladLoadGLLoader_result = True,
      glCreateShader_result = (\<lambda>ty. case ty of GL_VERTEX_SHADER \<Rightarrow> 1 | GL_FRAGMENT_SHADER \<Rightarrow> 2),
      compile_status = (\<lambda>ty. 1), shader_log = (\<lambda>ty. []),
      glCreateProgram_result = 3, link_status = 1, program_log = [],
      glGenVertexArrays_result = 1, glGenBuffers_result = (\<lambda>k. Suc k),
      frames = (\<lambda>i. \<lparr>escape_pressed = (i = 2), close_requested = False,
                      resize_events = (if i = 1 then [(1024, 768)] else [])\<rparr>),
      infoLog_uninitialised = (\<lambda>i. CHR ''?''),
      viewport_initial = (0, 0, 800, 600)\<rparr>"

definition broken_env :: env where
  "broken_env =
     demo_env\<lparr>compile_status := (\<lambda>ty. case ty of GL_VERTEX_SHADER \<Rightarrow> 0 | GL_FRAGMENT_SHADER \<Rightarrow> 1),
              shader_log := (\<lambda>ty. ''0:1: syntax error''),
              link_status := 0, program_log := ''no vertex shader''\<rparr>"

definition demo_state :: state where
  "demo_state =
     \<lparr>trace = [], glfw_initialised = True, window_alive = True,
      resize_callback = True, should_close = False,
      viewport = (0, 0, 800, 600), objects = {Buffer 1, Buffer 2},
      bound_buffer = (\<lambda>t. 0),
      buffer_store = [1 \<mapsto> Floats (vertices Rectangle), 2 \<mapsto> UInts indices],
      buffers_generated = 2,
      infoLog = (\<lambda>i. CHR ''?''), overflow = False\<rparr>"

section \<open>Proofs\<close>

subsection \<open>The state under the library calls\<close>

lemma emit_fields [simp]:
  "trace (emit c s) = trace s @ [c]"
  "glfw_initialised (emit c s) = glfw_initialised s"
  "window_alive (emit c s) = window_alive s"
  "resize_callback (emit c s) = resize_callback s"
  "should_close (emit c s) = should_close s"
  "viewport (emit c s) = viewport s"
  "objects (emit c s) = objects s"
  "bound_buffer (emit c s) = bound_buffer s"
  "buffer_store (emit c s) = buffer_store s"
  "buffers_generated (emit c s) = buffers_generated s"
  "infoLog (emit c s) = infoLog s"
  "overflow (emit c s) = overflow s"
  by (simp_all add: emit_def)

lemma write_infoLog_fields [simp]:
  "trace (write_infoLog bs s) = trace s"
  "glfw_initialised (write_infoLog bs s) = glfw_initialised s"
  "window_alive (write_infoLog bs s) = window_alive s"
  "resize_callback (write_infoLog bs s) = resize_callback s"
  "should_close (write_infoLog bs s) = should_close s"
  "viewport (write_infoLog bs s) = viewport s"
  "objects (write_infoLog bs s) = objects s"
  "bound_buffer (write_infoLog bs s) = bound_buffer s"
  "buffer_store (write_infoLog bs s) = buffer_store s"
  "buffers_generated (write_infoLog bs s) = buffers_generated s"
  by (simp_all add: write_infoLog_def)

lemmas glfw_defs = print_def glfwInit_def glfwWindowHint_def glfwCreateWindow_def
  glfwTerminate_def glfwMakeContextCurrent_def glfwSetFramebufferSizeCallback_def
  gladLoadGLLoader_def glfwWindowShouldClose_def glfwGetKey_def glfwSetWindowShouldClose_def
  glfwSwapBuffers_def

lemmas gl_defs = glCreateShader_def glShaderSource_def glCompileShader_def glGetShaderiv_def
  glCreateProgram_def glAttachShader_def glLinkProgram_def glGetProgramiv_def glDeleteShader_def
  glDeleteProgram_def glGetShaderInfoLog_def glGetProgramInfoLog_def glGenVertexArrays_def
  glGenBuffers_def glBindVertexArray_def glBindBuffer_def glBufferData_def
  glVertexAttribPointer_def glEnableVertexAttribArray_def glDeleteVertexArrays_def
  glDeleteBuffers_def glClearColor_def glClear_def glUseProgram_def glDrawArrays_def
  glDrawElements_def glViewport_def

subsection \<open>The array \<^verbatim>\<open>infoLog\<close>\<close>

lemma map_overwrite_prefix:
  assumes "length bs \<le> m"
  shows "map (\<lambda>i. if i < length bs then bs ! i else f i) [0..<m] = bs @ map f [length bs..<m]"
proof -
  have split: "[0..<m] = [0..<length bs] @ [length bs..<m]"
    using assms upt_add_eq_append [of 0 "length bs" "m - length bs"] by simp
  have "map (\<lambda>i. if i < length bs then bs ! i else f i) [0..<length bs] =
        map (nth bs) [0..<length bs]"
    by (rule map_cong) simp_all
  then have "map (\<lambda>i. if i < length bs then bs ! i else f i) [0..<length bs] = bs"
    by (simp only: map_nth)
  moreover have "map (\<lambda>i. if i < length bs then bs ! i else f i) [length bs..<m] = map f [length bs..<m]"
    by simp
  ultimately show ?thesis
    by (subst split) (simp only: map_append)
qed

lemma takeWhile_before_NUL:
  "takeWhile (\<lambda>c. c \<noteq> NUL) (xs @ NUL # ys) = takeWhile (\<lambda>c. c \<noteq> NUL) xs"
  by (induction xs) simp_all

lemma length_info_log_bytes: "length (info_log_bytes n msg) \<le> n"
  by (auto simp: info_log_bytes_def)

lemma c_str_write [simp]:
  "c_str (infoLog (write_infoLog (info_log_bytes 512 msg) s)) = printed_log msg"
proof -
  let ?bs = "info_log_bytes 512 msg"
  have len: "length ?bs \<le> 512" by (rule length_info_log_bytes)
  have bs: "?bs = take 511 msg @ [NUL]" by (simp add: info_log_bytes_def)
  have "c_str (infoLog (write_infoLog ?bs s)) =
        takeWhile (\<lambda>c. c \<noteq> NUL) (?bs @ map (infoLog s) [length ?bs..<512])"
    using map_overwrite_prefix [OF len, of "infoLog s"]
    by (simp add: c_str_def write_infoLog_def infoLog_size_def)
  also have "\<dots> = printed_log msg"
    unfolding bs by (simp add: takeWhile_before_NUL printed_log_def)
  finally show ?thesis .
qed

lemma length_printed_log: "length (printed_log msg) \<le> 511"
proof -
  have "length (printed_log msg) \<le> length (take 511 msg)"
    unfolding printed_log_def by (rule length_takeWhile_le)
  then show ?thesis by simp
qed

lemma no_overflow_write [simp]:
  "overflow (write_infoLog (info_log_bytes 512 msg) s) = overflow s"
  using length_info_log_bytes [of 512 msg] by (simp add: write_infoLog_def infoLog_size_def)

subsection \<open>Building the shaders\<close>

lemma build_shaders_effect:
  "case build_shaders e s of (shaderProgram, s') \<Rightarrow>
     shaderProgram = the_program e \<and>
     trace s' = trace s @ build_calls e \<and>
     untouched s s' \<and>
     bound_buffer s' = bound_buffer s \<and> buffer_store s' = buffer_store s \<and>
     buffers_generated s' = buffers_generated s \<and>
     objects s' \<subseteq> insert (ShaderProgram (the_program e)) (objects s) \<and>
     (the_program e \<noteq> 0 \<longrightarrow> ShaderProgram (the_program e) \<in> objects s')"
  by (cases "compile_status e GL_VERTEX_SHADER = 0"; cases "compile_status e GL_FRAGMENT_SHADER = 0";
      cases "link_status e = 0")
     (auto simp add: build_shaders_def gl_defs glfw_defs Let_def the_program_def untouched_def
        build_calls_def compile_calls_def link_calls_def diagnostic_def)

lemma build_shaders_D:
  assumes "build_shaders e s = (shaderProgram, s')"
  shows "shaderProgram = the_program e \<and>
     trace s' = trace s @ build_calls e \<and>
     untouched s s' \<and>
     bound_buffer s' = bound_buffer s \<and> buffer_store s' = buffer_store s \<and>
     buffers_generated s' = buffers_generated s \<and>
     objects s' \<subseteq> insert (ShaderProgram (the_program e)) (objects s) \<and>
     (the_program e \<noteq> 0 \<longrightarrow> ShaderProgram (the_program e) \<in> objects s')"
  using build_shaders_effect [of e s] assms by simp

subsection \<open>Uploading the geometry\<close>

lemma upload_geometry_effect:
  assumes "buffers_generated s = 0"
  shows "case upload_geometry p e s of (VAO, VBO, EBO, s') \<Rightarrow>
     VAO = the_VAO e \<and> VBO = the_VBO e \<and> EBO = the_EBO p e \<and>
     trace s' = trace s @ geometry_calls p e \<and>
     untouched s s' \<and>
     objects s' \<subseteq> objects s \<union> geometry_objects p e \<and> objects s \<subseteq> objects s' \<and>
     (names_valid p e \<longrightarrow> geometry_objects p e \<subseteq> objects s')"
  using assms
  by (cases p)
     (auto simp add: upload_geometry_def gl_defs Let_def the_VAO_def the_VBO_def the_EBO_def
        untouched_def geometry_calls_def geometry_objects_def names_valid_def vertices_def indices_def
        sizeof_float_def sizeof_unsigned_int_def)

lemma upload_geometry_D:
  assumes "upload_geometry p e s = (VAO, VBO, EBO, s')" "buffers_generated s = 0"
  shows "VAO = the_VAO e \<and> VBO = the_VBO e \<and> EBO = the_EBO p e \<and>
     trace s' = trace s @ geometry_calls p e \<and>
     untouched s s' \<and>
     objects s' \<subseteq> objects s \<union> geometry_objects p e \<and> objects s \<subseteq> objects s' \<and>
     (names_valid p e \<longrightarrow> geometry_objects p e \<subseteq> objects s')"
  using upload_geometry_effect [where s = s and p = p and e = e] assms by simp

subsection \<open>From the first statement to the loop\<close>

lemma startup_window_failure:
  assumes "\<not> glfwCreateWindow_result e"
  shows "startup p e =
    Inl (- 1, (initial_state e)\<lparr>trace := window_calls p e @
       [Print (''Failed to create GLFW window'' @ newline), GlfwTerminate],
       glfw_initialised := False, window_alive := False\<rparr>)"
  using assms
  by (simp add: startup_def glfw_defs emit_def window_calls_def window_hints_def
      initial_state_def Let_def)

lemma startup_glad_failure:
  assumes "glfwCreateWindow_result e" "\<not> gladLoadGLLoader_result e"
  shows "startup p e =
    Inl (- 1, (initial_state e)\<lparr>trace := window_calls p e @
       [GlfwMakeContextCurrent, GlfwSetFramebufferSizeCallback, GladLoadGLLoader,
        Print (''Failed to initialize GLAD'' @ newline)],
       glfw_initialised := glfwInit_result e, window_alive := True, resize_callback := True\<rparr>)"
  using assms
  by (simp add: startup_def glfw_defs emit_def window_calls_def window_hints_def
      initial_state_def Let_def)

lemma startup_success:
  assumes "glfwCreateWindow_result e" "gladLoadGLLoader_result e"
  shows "\<exists>s. startup p e = Inr (the_program e, the_VAO e, the_VBO e, the_EBO p e, s) \<and>
             loop_entry p e s"
proof -
  define s0 where "s0 = snd (gladLoadGLLoader e (glfwSetFramebufferSizeCallback
     (glfwMakeContextCurrent (snd (glfwCreateWindow e SCR_WIDTH SCR_HEIGHT (window_title p)
       (if apple e then glfwWindowHint GLFW_OPENGL_FORWARD_COMPAT GL_TRUE
          (glfwWindowHint GLFW_OPENGL_PROFILE GLFW_OPENGL_CORE_PROFILE
            (glfwWindowHint GLFW_CONTEXT_VERSION_MINOR (Number 3)
              (glfwWindowHint GLFW_CONTEXT_VERSION_MAJOR (Number 3)
                (snd (glfwInit e (initial_state e))))))
        else glfwWindowHint GLFW_OPENGL_PROFILE GLFW_OPENGL_CORE_PROFILE
            (glfwWindowHint GLFW_CONTEXT_VERSION_MINOR (Number 3)
              (glfwWindowHint GLFW_CONTEXT_VERSION_MAJOR (Number 3)
                (snd (glfwInit e (initial_state e)))))))))))"
  obtain sp s1 where b: "build_shaders e s0 = (sp, s1)"
    by (cases "build_shaders e s0")
  obtain vao vbo ebo s2 where u: "upload_geometry p e s1 = (vao, vbo, ebo, s2)"
    by (cases "upload_geometry p e s1") auto
  have s0: "trace s0 = window_calls p e @
        [GlfwMakeContextCurrent, GlfwSetFramebufferSizeCallback, GladLoadGLLoader]"
      "\<not> should_close s0" "resize_callback s0" "window_alive s0"
      "glfw_initialised s0 = glfwInit_result e" "\<not> overflow s0"
      "viewport s0 = viewport_initial e" "objects s0 = {}" "buffers_generated s0 = 0"
    using assms
    by (simp_all add: s0_def glfw_defs window_calls_def window_hints_def initial_state_def)
  note B = build_shaders_D [OF b]
  have "buffers_generated s1 = 0" using B s0 by simp
  note U = upload_geometry_D [OF u this]
  have "startup p e = Inr (sp, vao, vbo, ebo, s2)"
    using assms b u by (cases "apple e") (simp_all add: startup_def Let_def s0_def glfw_defs)
  moreover have "loop_entry p e s2"
    using B U s0 by (auto simp add: loop_entry_def untouched_def startup_calls_def names_valid_def)
  ultimately show ?thesis using B U by auto
qed

subsection \<open>The render loop\<close>

lemma loop_frame_refl [simp]: "loop_frame s s"
  by (simp add: loop_frame_def)

lemma loop_frame_trans: "loop_frame s t \<Longrightarrow> loop_frame t u \<Longrightarrow> loop_frame s u"
  by (simp add: loop_frame_def)

lemma callbacks_effect:
  "trace (fold (\<lambda>(width, height). framebuffer_size_callback width height) rs s) =
     trace s @ map (\<lambda>(width, height). GlViewport 0 0 width height) rs \<and>
   should_close (fold (\<lambda>(width, height). framebuffer_size_callback width height) rs s) =
     should_close s \<and>
   loop_frame s (fold (\<lambda>(width, height). framebuffer_size_callback width height) rs s)"
proof (induction rs arbitrary: s)
  case Nil
  show ?case by simp
next
  case (Cons r rs)
  obtain width height where r: "r = (width, height)" by (cases r)
  let ?s1 = "framebuffer_size_callback width height s"
  have step: "trace ?s1 = trace s @ [GlViewport 0 0 width height]"
      "should_close ?s1 = should_close s" "loop_frame s ?s1"
    by (simp_all add: framebuffer_size_callback_def glViewport_def loop_frame_def)
  from Cons.IH [of ?s1] step show ?case
    by (auto simp add: r intro: loop_frame_trans)
qed

lemma loop_body_effect:
  assumes "resize_callback s"
  shows "trace (loop_body p e (the_program e) (the_VAO e) i s) = trace s @ frame_calls p e i \<and>
     should_close (loop_body p e (the_program e) (the_VAO e) i s) = (should_close s \<or> closes e i) \<and>
     loop_frame s (loop_body p e (the_program e) (the_VAO e) i s)"
proof -
  let ?s1 = "glfwSwapBuffers (draw p (glBindVertexArray (the_VAO e) (glUseProgram (the_program e)
     (glClear (glClearColor clear_red clear_red clear_blue 1.0 (processInput e i s))))))"
  let ?s2 = "(emit GlfwPollEvents ?s1)
     \<lparr>should_close := (if close_requested (frames e i) then True else should_close ?s1)\<rparr>"
  have s1: "trace ?s1 = trace s @ [GlfwGetKey] @
        (if escape_pressed (frames e i) then [GlfwSetWindowShouldClose True] else []) @
        [GlClearColor clear_red clear_red clear_blue 1, GlClear,
         GlUseProgram (the_program e), GlBindVertexArray (the_VAO e),
         the_draw_call p, GlfwSwapBuffers]"
      "should_close ?s1 = (should_close s \<or> escape_pressed (frames e i))"
      "loop_frame s ?s1"
    by (cases p; cases "escape_pressed (frames e i)";
        simp add: processInput_def draw_def the_draw_call_def gl_defs glfw_defs loop_frame_def)+
  have s2: "trace ?s2 = trace ?s1 @ [GlfwPollEvents]"
      "should_close ?s2 = (should_close ?s1 \<or> close_requested (frames e i))"
      "loop_frame ?s1 ?s2"
    by (simp_all add: loop_frame_def)
  have body: "loop_body p e (the_program e) (the_VAO e) i s =
      fold (\<lambda>(width, height). framebuffer_size_callback width height) (resize_events (frames e i)) ?s2"
    using assms s1(3) by (simp add: loop_body_def glfwPollEvents_def Let_def loop_frame_def)
  show ?thesis
    unfolding body using callbacks_effect [of "resize_events (frames e i)" ?s2] s1 s2
    by (auto simp add: frame_calls_def closes_def intro: loop_frame_trans)
qed

lemma loop_calls_0: "loop_calls p e i 0 = [GlfwWindowShouldClose]"
  by (simp add: loop_calls_def)

lemma loop_calls_Suc:
  "loop_calls p e i (Suc k) = GlfwWindowShouldClose # frame_calls p e i @ loop_calls p e (Suc i) k"
proof -
  have "[i..<i + Suc k] = i # [Suc i..<Suc i + k]"
    by (simp del: upt_Suc add: upt_conv_Cons)
  then show ?thesis
    by (simp only: loop_calls_def) simp
qed

lemma first_close_0: "closes e i \<Longrightarrow> first_close e i 0"
  by (simp add: first_close_def)

lemma first_close_Suc: "\<not> closes e i \<Longrightarrow> first_close e (Suc i) n \<Longrightarrow> first_close e i (Suc n)"
  by (auto simp add: first_close_def less_Suc_eq_0_disj)

lemma first_close_unique: "first_close e i n \<Longrightarrow> first_close e i m \<Longrightarrow> n = m"
  unfolding first_close_def by (metis linorder_neqE_nat)

lemma render_loop_effect:
  assumes "render_loop p e (the_program e) (the_VAO e) fuel i s = Some s'" "resize_callback s"
  shows "\<exists>k<fuel. trace s' = trace s @ loop_calls p e i k \<and> should_close s' \<and>
             loop_frame s s' \<and>
             (if should_close s then k = 0 else \<exists>n. k = Suc n \<and> first_close e i n)"
  using assms
proof (induction fuel arbitrary: i s)
  case 0
  then show ?case by simp
next
  case (Suc fuel)
  show ?case
  proof (cases "should_close s")
    case True
    with Suc.prems have "s' = emit GlfwWindowShouldClose s"
      by (simp add: glfwWindowShouldClose_def)
    with True show ?thesis
      by (intro exI [of _ 0]) (simp add: loop_calls_0 loop_frame_def)
  next
    case False
    let ?s0 = "emit GlfwWindowShouldClose s"
    let ?s1 = "loop_body p e (the_program e) (the_VAO e) i ?s0"
    have rc: "resize_callback ?s0" using Suc.prems(2) by simp
    note body = loop_body_effect [OF rc, of p e i]
    from False Suc.prems have run: "render_loop p e (the_program e) (the_VAO e) fuel (Suc i) ?s1 = Some s'"
      by (simp add: glfwWindowShouldClose_def)
    have rc1: "resize_callback ?s1" using body rc by (simp add: loop_frame_def)
    from Suc.IH [OF run rc1] obtain k where k: "k < fuel"
        "trace s' = trace ?s1 @ loop_calls p e (Suc i) k"
        "should_close s'" "loop_frame ?s1 s'"
        "if should_close ?s1 then k = 0 else \<exists>n. k = Suc n \<and> first_close e (Suc i) n"
      by blast
    have closed: "should_close ?s1 = closes e i" using body False by simp
    have "trace s' = trace s @ loop_calls p e i (Suc k)"
      using k(2) body by (simp add: loop_calls_Suc)
    moreover have "loop_frame s s'"
      using body k(4) by (auto simp add: loop_frame_def)
    moreover have "first_close e i k"
    proof (cases "closes e i")
      case True
      with k(5) closed show ?thesis by (simp add: first_close_0)
    next
      case False
      with k(5) closed obtain n where "k = Suc n" "first_close e (Suc i) n" by auto
      with False show ?thesis by (simp add: first_close_Suc)
    qed
    ultimately show ?thesis using False k(1,3) by (intro exI [of _ "Suc k"]) simp
  qed
qed

lemma render_loop_returns:
  assumes "closes e (i + n)" "n + 2 \<le> fuel" "resize_callback s"
  shows "\<exists>s'. render_loop p e (the_program e) (the_VAO e) fuel i s = Some s'"
  using assms
proof (induction n arbitrary: i s fuel)
  case 0
  then obtain f where fuel: "fuel = Suc (Suc f)"
    by (metis add_2_eq_Suc le_Suc_ex add_0)
  let ?s0 = "emit GlfwWindowShouldClose s"
  have rc: "resize_callback ?s0" using "0.prems"(3) by simp
  from loop_body_effect [OF rc, of p e i] "0.prems"(1)
  have "should_close (loop_body p e (the_program e) (the_VAO e) i ?s0)" by simp
  then show ?case
    by (simp add: fuel glfwWindowShouldClose_def)
next
  case (Suc n)
  then obtain f where fuel: "fuel = Suc f" and f: "n + 2 \<le> f"
    by (metis Suc_le_D add_Suc Suc_le_mono)
  let ?s0 = "emit GlfwWindowShouldClose s"
  let ?s1 = "loop_body p e (the_program e) (the_VAO e) i ?s0"
  have rc: "resize_callback ?s0" using Suc.prems(3) by simp
  have rc1: "resize_callback ?s1"
    using loop_body_effect [OF rc, of p e i] rc by (simp add: loop_frame_def)
  have "closes e (Suc i + n)" using Suc.prems(1) by simp
  from Suc.IH [OF this f rc1] show ?case
    by (simp add: fuel glfwWindowShouldClose_def)
qed

lemma render_loop_runs_on:
  assumes "\<forall>j. \<not> closes e (i + j)" "\<not> should_close s" "resize_callback s"
  shows "render_loop p e (the_program e) (the_VAO e) fuel i s = None"
  using assms
proof (induction fuel arbitrary: i s)
  case 0
  show ?case by simp
next
  case (Suc fuel)
  let ?s0 = "emit GlfwWindowShouldClose s"
  let ?s1 = "loop_body p e (the_program e) (the_VAO e) i ?s0"
  have rc: "resize_callback ?s0" using Suc.prems(3) by simp
  note body = loop_body_effect [OF rc, of p e i]
  have "\<not> closes e i" using Suc.prems(1) [rule_format, of 0] by simp
  then have open1: "\<not> should_close ?s1" using body Suc.prems(2) by simp
  have rc1: "resize_callback ?s1" using body rc by (simp add: loop_frame_def)
  have "\<forall>j. \<not> closes e (Suc i + j)"
    using Suc.prems(1) by (metis add_Suc_shift)
  from Suc.IH [OF this open1 rc1] Suc.prems(2) show ?case
    by (simp add: glfwWindowShouldClose_def)
qed

subsection \<open>Cleanup\<close>

lemma cleanup_effect:
  "trace (cleanup (the_program e) (the_VAO e) (the_VBO e) (the_EBO p e) s) =
     trace s @ cleanup_calls p e \<and>
   objects (cleanup (the_program e) (the_VAO e) (the_VBO e) (the_EBO p e) s) =
     objects s - insert (ShaderProgram (the_program e)) (geometry_objects p e) \<and>
   \<not> glfw_initialised (cleanup (the_program e) (the_VAO e) (the_VBO e) (the_EBO p e) s) \<and>
   \<not> window_alive (cleanup (the_program e) (the_VAO e) (the_VBO e) (the_EBO p e) s) \<and>
   overflow (cleanup (the_program e) (the_VAO e) (the_VBO e) (the_EBO p e) s) = overflow s \<and>
   should_close (cleanup (the_program e) (the_VAO e) (the_VBO e) (the_EBO p e) s) = should_close s"
  by (cases p)
     (auto simp add: cleanup_def cleanup_calls_def geometry_objects_def the_EBO_def
        gl_defs glfw_defs Let_def)

subsection \<open>The whole of \<^verbatim>\<open>main\<close>\<close>

lemma main_window_failure:
  assumes "\<not> glfwCreateWindow_result e"
  shows "main p e fuel =
    Some (- 1, (initial_state e)\<lparr>trace := window_calls p e @
       [Print (''Failed to create GLFW window'' @ newline), GlfwTerminate],
       glfw_initialised := False, window_alive := False\<rparr>)"
  by (simp add: main_def startup_window_failure [OF assms])

lemma main_glad_failure:
  assumes "glfwCreateWindow_result e" "\<not> gladLoadGLLoader_result e"
  shows "main p e fuel =
    Some (- 1, (initial_state e)\<lparr>trace := window_calls p e @
       [GlfwMakeContextCurrent, GlfwSetFramebufferSizeCallback, GladLoadGLLoader,
        Print (''Failed to initialize GLAD'' @ newline)],
       glfw_initialised := glfwInit_result e, window_alive := True, resize_callback := True\<rparr>)"
  by (simp add: main_def startup_glad_failure [OF assms])

lemma main_effect:
  assumes "glfwCreateWindow_result e" "gladLoadGLLoader_result e"
    and "main p e fuel = Some (status, s)"
  shows "status = 0 \<and>
    (\<exists>n. first_close e 0 n \<and> n + 2 \<le> fuel \<and>
       trace s = startup_calls p e @ loop_calls p e 0 (Suc n) @ cleanup_calls p e) \<and>
    objects s = {} \<and> should_close s \<and> \<not> overflow s \<and>
    \<not> window_alive s \<and> \<not> glfw_initialised s"
proof -
  from startup_success [OF assms(1,2), of p] obtain s0 where
    s0: "startup p e = Inr (the_program e, the_VAO e, the_VBO e, the_EBO p e, s0)"
      and entry: "loop_entry p e s0"
    by blast
  from assms(3) s0 obtain s1 where
    loop: "render_loop p e (the_program e) (the_VAO e) fuel 0 s0 = Some s1"
      and fin: "status = 0" "s = cleanup (the_program e) (the_VAO e) (the_VBO e) (the_EBO p e) s1"
    by (auto simp add: main_def split: option.splits)
  have rc: "resize_callback s0" and "\<not> should_close s0"
    using entry by (simp_all add: loop_entry_def)
  with render_loop_effect [OF loop rc] obtain n where
    n: "Suc n < fuel" "trace s1 = trace s0 @ loop_calls p e 0 (Suc n)" "should_close s1"
      "loop_frame s0 s1" "first_close e 0 n"
    by auto
  note c = cleanup_effect [of e p s1]
  have "objects s = {}"
    using c n(4) entry fin(2) by (auto simp add: loop_frame_def loop_entry_def)
  moreover have "trace s = startup_calls p e @ loop_calls p e 0 (Suc n) @ cleanup_calls p e"
    using c n(2) entry fin(2) by (simp add: loop_entry_def)
  moreover have "should_close s" "\<not> overflow s" "\<not> window_alive s" "\<not> glfw_initialised s"
    using c n(3,4) entry fin(2) by (simp_all add: loop_frame_def loop_entry_def)
  ultimately show ?thesis using fin(1) n(1,5) by auto
qed

lemma main_returns:
  assumes "glfwCreateWindow_result e" "gladLoadGLLoader_result e"
    and "closes e n" "n + 2 \<le> fuel"
  shows "\<exists>s. main p e fuel = Some (0, s)"
proof -
  from startup_success [OF assms(1,2), of p] obtain s0 where
    s0: "startup p e = Inr (the_program e, the_VAO e, the_VBO e, the_EBO p e, s0)"
      and entry: "loop_entry p e s0"
    by blast
  have rc: "resize_callback s0" using entry by (simp add: loop_entry_def)
  from assms(3) have "closes e (0 + n)" by simp
  from render_loop_returns [OF this assms(4) rc, of p] s0 show ?thesis
    by (auto simp add: main_def)
qed

lemma main_runs_on:
  assumes "glfwCreateWindow_result e" "gladLoadGLLoader_result e"
    and "\<forall>j. \<not> closes e j"
  shows "main p e fuel = None"
proof -
  from startup_success [OF assms(1,2), of p] obtain s0 where
    s0: "startup p e = Inr (the_program e, the_VAO e, the_VBO e, the_EBO p e, s0)"
      and entry: "loop_entry p e s0"
    by blast
  have "resize_callback s0" "\<not> should_close s0" using entry by (simp_all add: loop_entry_def)
  with render_loop_runs_on [of e 0 s0 p fuel] assms(3) s0 show ?thesis
    by (simp add: main_def)
qed

subsection \<open>What a trace prints and draws\<close>

lemma printed_append [simp]: "printed (a @ b) = printed a @ printed b"
  by (simp add: printed_def)

lemma printed_Cons [simp]:
  "printed (c # t) = (case c of Print str \<Rightarrow> [str] | _ \<Rightarrow> []) @ printed t"
  by (simp add: printed_def)

lemma printed_Nil [simp]: "printed [] = []"
  by (simp add: printed_def)

lemma printed_map_Print [simp]: "printed (map Print xs) = xs"
  by (induction xs) simp_all

lemma printed_window_calls [simp]: "printed (window_calls p e) = []"
  by (simp add: window_calls_def window_hints_def)

lemma printed_build_calls [simp]: "printed (build_calls e) = diagnostics e"
  by (simp add: build_calls_def compile_calls_def link_calls_def diagnostics_def)

lemma printed_geometry_calls [simp]: "printed (geometry_calls p e) = []"
  by (cases p) (simp_all add: geometry_calls_def)

lemma printed_startup_calls [simp]: "printed (startup_calls p e) = diagnostics e"
  by (simp add: startup_calls_def)

lemma printed_viewports [simp]:
  "printed (map (\<lambda>(width, height). GlViewport 0 0 width height) rs) = []"
  by (induction rs) auto

lemma printed_frame_calls [simp]: "printed (frame_calls p e i) = []"
  by (cases p) (simp_all add: frame_calls_def the_draw_call_def)

lemma printed_loop_calls [simp]: "printed (loop_calls p e i k) = []"
  by (induction k arbitrary: i) (simp_all add: loop_calls_0 loop_calls_Suc)

lemma printed_cleanup_calls [simp]: "printed (cleanup_calls p e) = []"
  by (cases p) (simp_all add: cleanup_calls_def the_EBO_def)

subsection \<open>What does not depend on the result of \<^verbatim>\<open>glfwInit\<close>\<close>

lemma glfwInit_result_irrelevant [simp]:
  "window_calls p (e\<lparr>glfwInit_result := b\<rparr>) = window_calls p e"
  "startup_calls p (e\<lparr>glfwInit_result := b\<rparr>) = startup_calls p e"
  "frame_calls p (e\<lparr>glfwInit_result := b\<rparr>) i = frame_calls p e i"
  "cleanup_calls p (e\<lparr>glfwInit_result := b\<rparr>) = cleanup_calls p e"
  "closes (e\<lparr>glfwInit_result := b\<rparr>) i = closes e i"
  by (case_tac [!] p)
     (simp_all add: window_calls_def window_hints_def startup_calls_def build_calls_def
      compile_calls_def link_calls_def geometry_calls_def frame_calls_def cleanup_calls_def
      closes_def the_program_def the_VAO_def the_VBO_def the_EBO_def)

lemma glfwInit_result_irrelevant_loop [simp]:
  "loop_calls p (e\<lparr>glfwInit_result := b\<rparr>) i k = loop_calls p e i k"
  "first_close (e\<lparr>glfwInit_result := b\<rparr>) i n = first_close e i n"
  by (simp_all add: loop_calls_def first_close_def)

lemma main_same_calls:
  assumes "glfwCreateWindow_result e" "gladLoadGLLoader_result e"
    and "main p e fuel = Some (status, s)"
  shows "\<exists>s'. main p (e\<lparr>glfwInit_result := b\<rparr>) fuel = Some (status, s') \<and> trace s' = trace s"
proof -
  let ?e = "e\<lparr>glfwInit_result := b\<rparr>"
  have ok: "glfwCreateWindow_result ?e" "gladLoadGLLoader_result ?e"
    using assms(1,2) by simp_all
  from main_effect [OF assms] obtain n where n: "status = 0" "first_close e 0 n" "n + 2 \<le> fuel"
      "trace s = startup_calls p e @ loop_calls p e 0 (Suc n) @ cleanup_calls p e"
    by blast
  from n(2) have "closes ?e n" by (simp add: first_close_def)
  from main_returns [OF ok this n(3), of p] obtain s' where
    s': "main p ?e fuel = Some (0, s')" by blast
  from main_effect [OF ok s'] obtain m where m: "first_close e 0 m"
      "trace s' = startup_calls p e @ loop_calls p e 0 (Suc m) @ cleanup_calls p e"
    by auto
  from first_close_unique [OF n(2) m(1)] n m s' show ?thesis by simp
qed

subsection \<open>Draw calls and info-log retrievals of a trace\<close>

lemma draw_calls_simps [simp]:
  "draw_calls [] = []"
  "draw_calls (a @ b) = draw_calls a @ draw_calls b"
  "draw_calls (c # t) = (if is_draw c then [c] else []) @ draw_calls t"
  by (simp_all add: draw_calls_def)

lemma info_log_sizes_simps [simp]:
  "info_log_sizes [] = []"
  "info_log_sizes (a @ b) = info_log_sizes a @ info_log_sizes b"
  "info_log_sizes (c # t) =
     (case c of GlGetShaderInfoLog shader n \<Rightarrow> [n] | GlGetProgramInfoLog prog n \<Rightarrow> [n]
      | _ \<Rightarrow> []) @ info_log_sizes t"
  by (simp_all add: info_log_sizes_def)

lemma no_draw_in_prints [simp]: "draw_calls (map Print xs) = []"
  by (induction xs) (simp_all add: is_draw_def)

lemma no_retrieval_in_prints [simp]: "info_log_sizes (map Print xs) = []"
  by (induction xs) simp_all

lemma no_draw_in_viewports [simp]:
  "draw_calls (map (\<lambda>(width, height). GlViewport 0 0 width height) rs) = []"
  by (induction rs) (auto simp add: is_draw_def)

lemma no_retrieval_in_viewports [simp]:
  "info_log_sizes (map (\<lambda>(width, height). GlViewport 0 0 width height) rs) = []"
  by (induction rs) auto

lemma draw_calls_startup [simp]: "draw_calls (startup_calls p e) = []"
  by (cases p)
     (simp_all add: startup_calls_def window_calls_def window_hints_def build_calls_def
        compile_calls_def link_calls_def geometry_calls_def is_draw_def)

lemma draw_calls_frame [simp]: "draw_calls (frame_calls p e i) = [the_draw_call p]"
  by (cases p) (simp_all add: frame_calls_def the_draw_call_def is_draw_def)

lemma draw_calls_loop [simp]: "draw_calls (loop_calls p e i k) = replicate k (the_draw_call p)"
  by (induction k arbitrary: i) (simp_all add: loop_calls_0 loop_calls_Suc is_draw_def)

lemma draw_calls_cleanup [simp]: "draw_calls (cleanup_calls p e) = []"
  by (cases p) (simp_all add: cleanup_calls_def the_EBO_def is_draw_def)

lemma info_log_sizes_startup:
  "info_log_sizes (startup_calls p e) =
     (if compile_status e GL_VERTEX_SHADER = 0 then [512] else []) @
     (if compile_status e GL_FRAGMENT_SHADER = 0 then [512] else []) @
     (if link_status e = 0 then [512] else [])"
  by (cases p)
     (simp_all add: startup_calls_def window_calls_def window_hints_def build_calls_def
        compile_calls_def link_calls_def geometry_calls_def)

lemma info_log_sizes_frame [simp]: "info_log_sizes (frame_calls p e i) = []"
  by (cases p) (simp_all add: frame_calls_def the_draw_call_def)

lemma info_log_sizes_loop [simp]: "info_log_sizes (loop_calls p e i k) = []"
  by (induction k arbitrary: i) (simp_all add: loop_calls_0 loop_calls_Suc)

lemma info_log_sizes_cleanup [simp]: "info_log_sizes (cleanup_calls p e) = []"
  by (cases p) (simp_all add: cleanup_calls_def the_EBO_def)

lemma info_log_sizes_window [simp]: "info_log_sizes (window_calls p e) = []"
  by (simp add: window_calls_def window_hints_def)

subsection \<open>Leaving the loop\<close>

lemma render_loop_exit:
  "render_loop p e shaderProgram VAO fuel i s = Some s' \<Longrightarrow> should_close s'"
proof (induction fuel arbitrary: i s)
  case 0
  then show ?case by simp
next
  case (Suc fuel)
  show ?case
  proof (cases "should_close s")
    case True
    with Suc.prems show ?thesis by (auto simp add: glfwWindowShouldClose_def)
  next
    case False
    with Suc.prems have
      "render_loop p e shaderProgram VAO fuel (Suc i)
         (loop_body p e shaderProgram VAO i (emit GlfwWindowShouldClose s)) = Some s'"
      by (simp add: glfwWindowShouldClose_def)
    then show ?thesis by (rule Suc.IH)
  qed
qed

lemma processInput_escape:
  "escape_pressed (frames e i) \<Longrightarrow> should_close (processInput e i s)"
  by (simp add: processInput_def glfwGetKey_def glfwSetWindowShouldClose_def)

lemma loop_body_should_close:
  "should_close (loop_body p e shaderProgram VAO i s) = (should_close s \<or> closes e i)"
  by (cases p; cases "escape_pressed (frames e i)")
     (simp_all add: loop_body_def glfwPollEvents_def Let_def callbacks_effect processInput_def
        draw_def gl_defs glfw_defs closes_def)

subsection \<open>The resize responder and the info-log retrievals\<close>

lemma framebuffer_size_callback_effect:
  "trace (framebuffer_size_callback W H s) = trace s @ [GlViewport 0 0 W H]"
  "should_close (framebuffer_size_callback W H s) = should_close s"
  "loop_frame s (framebuffer_size_callback W H s)"
  "viewport (framebuffer_size_callback W H s) =
     (if W < 0 \<or> H < 0 then viewport s else (0, 0, W, H))"
  by (simp_all add: framebuffer_size_callback_def glViewport_def loop_frame_def)

lemma glfwPollEvents_last_resize:
  assumes "resize_callback s" "resize_events (frames e i) = rs @ [(W, H)]" "0 \<le> W" "0 \<le> H"
  shows "viewport (glfwPollEvents e i s) = (0, 0, W, H)"
    and "buffer_store (glfwPollEvents e i s) = buffer_store s"
proof -
  let ?s1 = "(emit GlfwPollEvents s)
     \<lparr>should_close := (if close_requested (frames e i) then True else should_close s)\<rparr>"
  let ?f = "\<lambda>(width, height). framebuffer_size_callback width height"
  have poll: "glfwPollEvents e i s = framebuffer_size_callback W H (fold ?f rs ?s1)"
    using assms(1,2) by (simp add: glfwPollEvents_def Let_def)
  show "viewport (glfwPollEvents e i s) = (0, 0, W, H)"
    using assms(3,4) by (simp add: poll framebuffer_size_callback_effect)
  have "loop_frame ?s1 (fold ?f rs ?s1)"
    using callbacks_effect [of rs ?s1] by simp
  then show "buffer_store (glfwPollEvents e i s) = buffer_store s"
    using framebuffer_size_callback_effect(3) [of "fold ?f rs ?s1" W H]
    by (simp add: poll loop_frame_def)
qed

lemma retrieval_effect:
  "overflow (glGetShaderInfoLog e ty shader 512 s) = overflow s"
  "overflow (glGetProgramInfoLog e prog 512 s) = overflow s"
  "c_str (infoLog (glGetShaderInfoLog e ty shader 512 s)) = printed_log (shader_log e ty)"
  "c_str (infoLog (glGetProgramInfoLog e prog 512 s)) = printed_log (program_log e)"
  by (simp_all add: glGetShaderInfoLog_def glGetProgramInfoLog_def)

lemma larger_bufSize_overflows:
  "overflow (glGetShaderInfoLog (e\<lparr>shader_log := (\<lambda>ty. replicate 600 c)\<rparr>) ty shader 600 s)"
  by (simp add: glGetShaderInfoLog_def write_infoLog_def info_log_bytes_def infoLog_size_def)

lemma main_retrievals:
  assumes "main p e fuel = Some (status, s)"
  shows "\<not> overflow s \<and> set (info_log_sizes (trace s)) \<subseteq> {512}"
proof (cases "glfwCreateWindow_result e")
  case False
  from main_window_failure [OF this, of p fuel] assms show ?thesis
    by (auto simp add: initial_state_def)
next
  case w: True
  show ?thesis
  proof (cases "gladLoadGLLoader_result e")
    case False
    from main_glad_failure [OF w this, of p fuel] assms show ?thesis
      by (auto simp add: initial_state_def)
  next
    case True
    from main_effect [OF w True assms] show ?thesis
      by (auto simp add: info_log_sizes_startup split: if_splits)
  qed
qed

subsection \<open>The rectangle's geometry\<close>

lemma corner_simps:
  "corners ! 0 = (1 / 2, 1 / 2)" "corners ! 1 = (1 / 2, - 1 / 2)"
  "corners ! 2 = (- 1 / 2, - 1 / 2)" "corners ! 3 = (- 1 / 2, 1 / 2)"
  "corners ! Suc 0 = (1 / 2, - 1 / 2)"
  by (simp_all add: corners_def numeral_3_eq_3 numeral_2_eq_2)

lemma rectangle_vertex_points:
  "map (vertex_point (vertices Rectangle)) [0, 1, 2, 3] = map Some corners"
  by (simp add: vertex_point_def fetch_vertex_def vertex_shader_def screen_point_def
      vertices_def corners_def numeral_3_eq_3 numeral_2_eq_2)

lemma rectangle_triangles:
  "draw_elements_triangles (vertices Rectangle) indices 6 =
     [(Some (corners ! 0), Some (corners ! 1), Some (corners ! 3)),
      (Some (corners ! 1), Some (corners ! 2), Some (corners ! 3))]"
proof -
  have pts: "vertex_point (vertices Rectangle) 0 = Some (corners ! 0)"
      "vertex_point (vertices Rectangle) 1 = Some (corners ! 1)"
      "vertex_point (vertices Rectangle) 2 = Some (corners ! 2)"
      "vertex_point (vertices Rectangle) 3 = Some (corners ! 3)"
      "vertex_point (vertices Rectangle) (Suc 0) = Some (corners ! 1)"
    using rectangle_vertex_points by (simp_all add: corners_def numeral_3_eq_3 numeral_2_eq_2)
  have "take 6 indices = [0, 1, 3, 1, 2, 3]" by (simp add: indices_def)
  then show ?thesis
    by (simp add: draw_elements_triangles_def pts)
qed

lemma triangle_program_triangle:
  "draw_arrays_triangles (vertices Triangle) 0 3 =
     [(Some (- 1 / 2, - 1 / 2), Some (1 / 2, - 1 / 2), Some (0, 1 / 2))]"
  by (simp add: draw_arrays_triangles_def vertex_point_def fetch_vertex_def vertex_shader_def
      screen_point_def vertices_def upt_rec numeral_3_eq_3 numeral_2_eq_2)

lemma first_triangle_iff:
  "in_triangle first_triangle (x, y) \<longleftrightarrow> x \<le> 1 / 2 \<and> y \<le> 1 / 2 \<and> 0 \<le> x + y"
  by (auto simp add: in_triangle_def first_triangle_def corner_simps edge_def)

lemma second_triangle_iff:
  "in_triangle second_triangle (x, y) \<longleftrightarrow> - 1 / 2 \<le> x \<and> - 1 / 2 \<le> y \<and> x + y \<le> 0"
  by (auto simp add: in_triangle_def second_triangle_def corner_simps edge_def)

lemma first_interior_iff:
  "interior first_triangle (x, y) \<longleftrightarrow> x < 1 / 2 \<and> y < 1 / 2 \<and> 0 < x + y"
  by (auto simp add: interior_def first_triangle_def corner_simps edge_def)

lemma second_interior_iff:
  "interior second_triangle (x, y) \<longleftrightarrow> - 1 / 2 < x \<and> - 1 / 2 < y \<and> x + y < 0"
  by (auto simp add: interior_def second_triangle_def corner_simps edge_def)

lemma the_quad_iff:
  "in_quad the_quad (x, y) \<longleftrightarrow> \<bar>x\<bar> \<le> 1 / 2 \<and> \<bar>y\<bar> \<le> 1 / 2"
  by (auto simp add: in_quad_def the_quad_def corner_simps edge_def)

lemma diagonal_iff:
  "on_segment (corners ! 1) (corners ! 3) (x, y) \<longleftrightarrow> x + y = 0 \<and> \<bar>x\<bar> \<le> 1 / 2"
  by (auto simp add: on_segment_def corner_simps edge_def)

lemma hull3I:
  assumes "0 \<le> u" "0 \<le> v" "0 \<le> w" "u + v + w = 1"
    and "fst q = u * fst a + v * fst b + w * fst c"
    and "snd q = u * snd a + v * snd b + w * snd c"
  shows "hull3 (a, b, c) q"
  using assms by (auto simp add: hull3_def)

lemma first_hull_iff: "hull3 first_triangle (x, y) \<longleftrightarrow> in_triangle first_triangle (x, y)"
proof
  assume "hull3 first_triangle (x, y)"
  then obtain u v w :: real where "0 \<le> u" "0 \<le> v" "0 \<le> w" "u + v + w = 1"
      "x = u * (1 / 2) + v * (1 / 2) + w * (- 1 / 2)"
      "y = u * (1 / 2) + v * (- 1 / 2) + w * (1 / 2)"
    by (auto simp add: hull3_def first_triangle_def corner_simps)
  then show "in_triangle first_triangle (x, y)"
    unfolding first_triangle_iff by (auto simp add: field_simps)
next
  assume "in_triangle first_triangle (x, y)"
  then have b: "x \<le> 1 / 2" "y \<le> 1 / 2" "0 \<le> x + y" by (simp_all add: first_triangle_iff)
  show "hull3 first_triangle (x, y)"
    unfolding first_triangle_def
    by (rule hull3I [of "x + y" "1 / 2 - y" "1 / 2 - x"])
       (use b in \<open>simp_all add: corner_simps field_simps\<close>)
qed

lemma second_hull_iff: "hull3 second_triangle (x, y) \<longleftrightarrow> in_triangle second_triangle (x, y)"
proof
  assume "hull3 second_triangle (x, y)"
  then obtain u v w :: real where "0 \<le> u" "0 \<le> v" "0 \<le> w" "u + v + w = 1"
      "x = u * (1 / 2) + v * (- 1 / 2) + w * (- 1 / 2)"
      "y = u * (- 1 / 2) + v * (- 1 / 2) + w * (1 / 2)"
    by (auto simp add: hull3_def second_triangle_def corner_simps)
  then show "in_triangle second_triangle (x, y)"
    unfolding second_triangle_iff by (auto simp add: field_simps)
next
  assume "in_triangle second_triangle (x, y)"
  then have b: "- 1 / 2 \<le> x" "- 1 / 2 \<le> y" "x + y \<le> 0" by (simp_all add: second_triangle_iff)
  show "hull3 second_triangle (x, y)"
    unfolding second_triangle_def
    by (rule hull3I [of "x + 1 / 2" "- (x + y)" "y + 1 / 2"])
       (use b in \<open>simp_all add: corner_simps field_simps\<close>)
qed

section \<open>The properties of the specification\<close>

text \<open>
  C1. When the window and the GPU functions are there, \<^verbatim>\<open>main\<close> reaches the render
  loop whatever the three status queries report, having made every call of the shader
  build and of the geometry upload. What it has printed by then, and what it has
  printed when it returns, is exactly \<open>diagnostics e\<close>: for each of the three steps,
  in order, the three strings of its diagnostic if its status query stored \<open>0\<close> and
  nothing otherwise. When all three queries report success nothing is printed at all.
\<close>

theorem shader_diagnostics:
  assumes "glfwCreateWindow_result e" and "gladLoadGLLoader_result e"
  shows "(\<exists>s. startup p e = Inr (the_program e, the_VAO e, the_VBO e, the_EBO p e, s) \<and>
              trace s = startup_calls p e \<and> printed (trace s) = diagnostics e) \<and>
         (\<forall>status s. main p e fuel = Some (status, s) \<longrightarrow> printed (trace s) = diagnostics e) \<and>
         diagnostics e =
           (if compile_status e GL_VERTEX_SHADER = 0
            then [''Vertex Shader Error:'' @ newline,
                  printed_log (shader_log e GL_VERTEX_SHADER), newline]
            else []) @
           (if compile_status e GL_FRAGMENT_SHADER = 0
            then [''Fragment Shader Error:'' @ newline,
                  printed_log (shader_log e GL_FRAGMENT_SHADER), newline]
            else []) @
           (if link_status e = 0
            then [''Shader Link Error:'' @ newline, printed_log (program_log e), newline]
            else []) \<and>
         (compile_status e GL_VERTEX_SHADER \<noteq> 0 \<and> compile_status e GL_FRAGMENT_SHADER \<noteq> 0 \<and>
          link_status e \<noteq> 0 \<longrightarrow> diagnostics e = [])"
proof (intro conjI allI impI)
  from startup_success [OF assms, of p] obtain s where
    s: "startup p e = Inr (the_program e, the_VAO e, the_VBO e, the_EBO p e, s)"
      "loop_entry p e s"
    by blast
  then have "trace s = startup_calls p e" by (simp add: loop_entry_def)
  with s(1) show "\<exists>s. startup p e = Inr (the_program e, the_VAO e, the_VBO e, the_EBO p e, s) \<and>
              trace s = startup_calls p e \<and> printed (trace s) = diagnostics e"
    by simp
next
  fix status s
  assume "main p e fuel = Some (status, s)"
  from main_effect [OF assms this] show "printed (trace s) = diagnostics e"
    by auto
next
  show "diagnostics e =
           (if compile_status e GL_VERTEX_SHADER = 0
            then [''Vertex Shader Error:'' @ newline,
                  printed_log (shader_log e GL_VERTEX_SHADER), newline]
            else []) @
           (if compile_status e GL_FRAGMENT_SHADER = 0
            then [''Fragment Shader Error:'' @ newline,
                  printed_log (shader_log e GL_FRAGMENT_SHADER), newline]
            else []) @
           (if link_status e = 0
            then [''Shader Link Error:'' @ newline, printed_log (program_log e), newline]
            else [])"
    by (simp add: diagnostics_def diagnostic_def)
next
  assume "compile_status e GL_VERTEX_SHADER \<noteq> 0 \<and> compile_status e GL_FRAGMENT_SHADER \<noteq> 0 \<and>
          link_status e \<noteq> 0"
  then show "diagnostics e = []"
    by (simp add: diagnostics_def diagnostic_def)
qed

theorem shader_diagnostics_witness:
  "(\<exists>s. startup Triangle broken_env = Inr (3, 1, 1, None, s) \<and>
        printed (trace s) =
          [''Vertex Shader Error:'' @ newline, ''0:1: syntax error'', newline,
           ''Shader Link Error:'' @ newline, ''no vertex shader'', newline]) \<and>
   (\<exists>s. main Rectangle demo_env 4 = Some (0, s) \<and> printed (trace s) = [])"
proof -
  have ok: "glfwCreateWindow_result broken_env" "gladLoadGLLoader_result broken_env"
      "glfwCreateWindow_result demo_env" "gladLoadGLLoader_result demo_env"
    by (simp_all add: broken_env_def demo_env_def)
  have names: "the_program broken_env = 3" "the_VAO broken_env = 1" "the_VBO broken_env = 1"
      "the_EBO Triangle broken_env = None"
    by (simp_all add: the_program_def the_VAO_def the_VBO_def the_EBO_def broken_env_def
        demo_env_def)
  have d1: "diagnostics broken_env =
      [''Vertex Shader Error:'' @ newline, ''0:1: syntax error'', newline,
       ''Shader Link Error:'' @ newline, ''no vertex shader'', newline]"
    by (simp add: diagnostics_def diagnostic_def printed_log_def broken_env_def demo_env_def
        NUL_def)
  have d2: "compile_status demo_env GL_VERTEX_SHADER \<noteq> 0 \<and>
      compile_status demo_env GL_FRAGMENT_SHADER \<noteq> 0 \<and> link_status demo_env \<noteq> 0"
    by (simp add: demo_env_def)
  have "closes demo_env 2" by (simp add: closes_def demo_env_def)
  from main_returns [OF ok(3,4) this, of 4 Rectangle]
  obtain s where s: "main Rectangle demo_env 4 = Some (0, s)" by auto
  from shader_diagnostics [OF ok(1,2), of Triangle 0] names d1
  have "\<exists>s. startup Triangle broken_env = Inr (3, 1, 1, None, s) \<and>
        printed (trace s) =
          [''Vertex Shader Error:'' @ newline, ''0:1: syntax error'', newline,
           ''Shader Link Error:'' @ newline, ''no vertex shader'', newline]"
    by auto
  moreover
  from shader_diagnostics [OF ok(3,4), of Rectangle 4] s d2
  have "printed (trace s) = []" by auto
  with s have "\<exists>s. main Rectangle demo_env 4 = Some (0, s) \<and> printed (trace s) = []"
    by blast
  ultimately show ?thesis by blast
qed

text \<open>
  C2. The exit status of \<^verbatim>\<open>main\<close> is exactly \<open>-1\<close> when window creation fails and
  exactly \<open>-1\<close> when GPU function loading fails; on either path \<^verbatim>\<open>main\<close> returns
  whatever the fuel, after one attempt, one printed message and (for the window) the
  call of \<^verbatim>\<open>glfwTerminate\<close>, and makes no further call. When both succeed, a return
  of \<^verbatim>\<open>main\<close> has status exactly \<open>0\<close> and happens with the close flag set, and
  \<^verbatim>\<open>main\<close> does return \<open>0\<close> once some frame brings the Escape key or a close request.
\<close>

theorem exit_status_of_main:
  "(\<not> glfwCreateWindow_result e \<longrightarrow>
      (\<exists>s. main p e fuel = Some (- 1, s) \<and>
           trace s = window_calls p e @
             [Print (''Failed to create GLFW window'' @ newline), GlfwTerminate])) \<and>
   (glfwCreateWindow_result e \<and> \<not> gladLoadGLLoader_result e \<longrightarrow>
      (\<exists>s. main p e fuel = Some (- 1, s) \<and>
           trace s = window_calls p e @
             [GlfwMakeContextCurrent, GlfwSetFramebufferSizeCallback, GladLoadGLLoader,
              Print (''Failed to initialize GLAD'' @ newline)])) \<and>
   (glfwCreateWindow_result e \<and> gladLoadGLLoader_result e \<longrightarrow>
      (\<forall>status s. main p e fuel = Some (status, s) \<longrightarrow> status = 0 \<and> should_close s) \<and>
      (\<forall>n. closes e n \<and> n + 2 \<le> fuel \<longrightarrow> exit_status (main p e fuel) = Some 0))"
proof (intro conjI impI allI)
  assume "\<not> glfwCreateWindow_result e"
  from main_window_failure [OF this, of p fuel]
  show "\<exists>s. main p e fuel = Some (- 1, s) \<and>
           trace s = window_calls p e @
             [Print (''Failed to create GLFW window'' @ newline), GlfwTerminate]"
    by simp
next
  assume "glfwCreateWindow_result e \<and> \<not> gladLoadGLLoader_result e"
  then have "glfwCreateWindow_result e" "\<not> gladLoadGLLoader_result e" by simp_all
  from main_glad_failure [OF this, of p fuel]
  show "\<exists>s. main p e fuel = Some (- 1, s) \<and>
           trace s = window_calls p e @
             [GlfwMakeContextCurrent, GlfwSetFramebufferSizeCallback, GladLoadGLLoader,
              Print (''Failed to initialize GLAD'' @ newline)]"
    by simp
next
  fix status s
  assume ok: "glfwCreateWindow_result e \<and> gladLoadGLLoader_result e"
    and ret: "main p e fuel = Some (status, s)"
  from ok have "glfwCreateWindow_result e" "gladLoadGLLoader_result e" by simp_all
  from main_effect [OF this ret] show "status = 0" and "should_close s" by simp_all
next
  fix n
  assume ok: "glfwCreateWindow_result e \<and> gladLoadGLLoader_result e"
    and n: "closes e n \<and> n + 2 \<le> fuel"
  from ok have "glfwCreateWindow_result e" "gladLoadGLLoader_result e" by simp_all
  moreover from n have "closes e n" "n + 2 \<le> fuel" by simp_all
  ultimately have "\<exists>s. main p e fuel = Some (0, s)" by (rule main_returns)
  then show "exit_status (main p e fuel) = Some 0"
    by (auto simp add: exit_status_def)
qed

theorem exit_status_of_main_witness:
  "exit_status (main Triangle (demo_env\<lparr>glfwCreateWindow_result := False\<rparr>) 0) = Some (- 1) \<and>
   exit_status (main Rectangle (demo_env\<lparr>gladLoadGLLoader_result := False\<rparr>) 0) = Some (- 1) \<and>
   exit_status (main Triangle demo_env 4) = Some 0 \<and>
   (\<exists>s. main Triangle demo_env 4 = Some (0, s) \<and> should_close s)"
proof -
  have a: "\<not> glfwCreateWindow_result (demo_env\<lparr>glfwCreateWindow_result := False\<rparr>)"
    by simp
  have b: "glfwCreateWindow_result (demo_env\<lparr>gladLoadGLLoader_result := False\<rparr>) \<and>
      \<not> gladLoadGLLoader_result (demo_env\<lparr>gladLoadGLLoader_result := False\<rparr>)"
    by (simp add: demo_env_def)
  have c: "glfwCreateWindow_result demo_env \<and> gladLoadGLLoader_result demo_env"
    by (simp add: demo_env_def)
  have d: "closes demo_env 2 \<and> 2 + 2 \<le> (4::nat)"
    by (simp add: demo_env_def closes_def)
  from exit_status_of_main [where e = "demo_env\<lparr>glfwCreateWindow_result := False\<rparr>"
      and p = Triangle and fuel = 0] a
  have "exit_status (main Triangle (demo_env\<lparr>glfwCreateWindow_result := False\<rparr>) 0) = Some (- 1)"
    by (auto simp add: exit_status_def)
  moreover
  from exit_status_of_main [where e = "demo_env\<lparr>gladLoadGLLoader_result := False\<rparr>"
      and p = Rectangle and fuel = 0] b
  have "exit_status (main Rectangle (demo_env\<lparr>gladLoadGLLoader_result := False\<rparr>) 0) = Some (- 1)"
    by (auto simp add: exit_status_def)
  moreover
  from exit_status_of_main [where e = demo_env and p = Triangle and fuel = 4] c d
  have "exit_status (main Triangle demo_env 4) = Some 0"
    by blast
  moreover
  from this exit_status_of_main [where e = demo_env and p = Triangle and fuel = 4] c
  have "\<exists>s. main Triangle demo_env 4 = Some (0, s) \<and> should_close s"
    by (auto simp add: exit_status_def)
  ultimately show ?thesis by blast
qed

text \<open>
  C3. If the Escape key reads as pressed in the input poll of an iteration, then
  \<^verbatim>\<open>processInput\<close> sets the close flag in that iteration, the flag is still set when
  the iteration ends, and the next evaluation of the loop condition leaves the loop: no
  further iteration runs. The loop is left only with the close flag set, and when no
  frame brings the Escape key or a close request \<^verbatim>\<open>main\<close> never returns. When frame
  \<open>n\<close> is the first such frame and it brings the Escape key, \<^verbatim>\<open>main\<close> runs
  exactly the iterations \<open>0\<close> to \<open>n\<close>, then deletes the vertex array, the vertex
  buffer, the element buffer (rectangle program) and the shader program, calls
  \<^verbatim>\<open>glfwTerminate\<close> and returns \<open>0\<close>; none of the objects it created is left, and at
  the loop they all existed if their names were valid.
\<close>

theorem escape_ends_the_loop:
  "(escape_pressed (frames e i) \<longrightarrow>
      should_close (processInput e i s) \<and>
      should_close (loop_body p e shaderProgram VAO i s) \<and>
      render_loop p e shaderProgram VAO (Suc fuel) (Suc i) (loop_body p e shaderProgram VAO i s) =
        Some (emit GlfwWindowShouldClose (loop_body p e shaderProgram VAO i s))) \<and>
   (\<forall>s'. render_loop p e shaderProgram VAO fuel i s = Some s' \<longrightarrow> should_close s') \<and>
   (glfwCreateWindow_result e \<and> gladLoadGLLoader_result e \<and> (\<forall>j. \<not> closes e j) \<longrightarrow>
      main p e fuel = None) \<and>
   (glfwCreateWindow_result e \<and> gladLoadGLLoader_result e \<and> names_valid p e \<longrightarrow>
      (\<exists>s0. startup p e = Inr (the_program e, the_VAO e, the_VBO e, the_EBO p e, s0) \<and>
            objects s0 = insert (ShaderProgram (the_program e)) (geometry_objects p e))) \<and>
   (glfwCreateWindow_result e \<and> gladLoadGLLoader_result e \<and>
    escape_pressed (frames e n) \<and> (\<forall>j<n. \<not> closes e j) \<and> n + 2 \<le> fuel \<longrightarrow>
      (\<exists>s'. main p e fuel = Some (0, s') \<and>
            trace s' = startup_calls p e @ loop_calls p e 0 (Suc n) @ cleanup_calls p e \<and>
            draw_calls (trace s') = replicate (Suc n) (the_draw_call p) \<and>
            objects s' = {} \<and> \<not> window_alive s')) \<and>
   cleanup_calls Triangle e =
     [GlDeleteVertexArrays 1 (the_VAO e), GlDeleteBuffers 1 (the_VBO e),
      GlDeleteProgram (the_program e), GlfwTerminate] \<and>
   cleanup_calls Rectangle e =
     [GlDeleteVertexArrays 1 (the_VAO e), GlDeleteBuffers 1 (the_VBO e),
      GlDeleteBuffers 1 (glGenBuffers_result e 1),
      GlDeleteProgram (the_program e), GlfwTerminate]"
proof (intro conjI impI allI)
  assume esc: "escape_pressed (frames e i)"
  then show "should_close (processInput e i s)"
    by (rule processInput_escape)
  from esc show closed: "should_close (loop_body p e shaderProgram VAO i s)"
    by (simp add: loop_body_should_close closes_def)
  then show "render_loop p e shaderProgram VAO (Suc fuel) (Suc i)
        (loop_body p e shaderProgram VAO i s) =
      Some (emit GlfwWindowShouldClose (loop_body p e shaderProgram VAO i s))"
    by (simp add: glfwWindowShouldClose_def)
next
  fix s'
  assume "render_loop p e shaderProgram VAO fuel i s = Some s'"
  then show "should_close s'" by (rule render_loop_exit)
next
  assume "glfwCreateWindow_result e \<and> gladLoadGLLoader_result e \<and> (\<forall>j. \<not> closes e j)"
  then show "main p e fuel = None"
    by (simp add: main_runs_on)
next
  assume "glfwCreateWindow_result e \<and> gladLoadGLLoader_result e \<and> names_valid p e"
  then have ok: "glfwCreateWindow_result e" "gladLoadGLLoader_result e" and v: "names_valid p e"
    by simp_all
  from startup_success [OF ok, of p] v
  show "\<exists>s0. startup p e = Inr (the_program e, the_VAO e, the_VBO e, the_EBO p e, s0) \<and>
            objects s0 = insert (ShaderProgram (the_program e)) (geometry_objects p e)"
    by (auto simp add: loop_entry_def)
next
  assume a: "glfwCreateWindow_result e \<and> gladLoadGLLoader_result e \<and>
    escape_pressed (frames e n) \<and> (\<forall>j<n. \<not> closes e j) \<and> n + 2 \<le> fuel"
  then have ok: "glfwCreateWindow_result e" "gladLoadGLLoader_result e" by simp_all
  from a have first: "first_close e 0 n" by (simp add: first_close_def closes_def)
  then have "closes e n" by (simp add: first_close_def)
  moreover from a have "n + 2 \<le> fuel" by simp
  ultimately obtain s' where s': "main p e fuel = Some (0, s')"
    using main_returns [OF ok] by blast
  from main_effect [OF ok s'] obtain m where m: "first_close e 0 m"
      "trace s' = startup_calls p e @ loop_calls p e 0 (Suc m) @ cleanup_calls p e"
      "objects s' = {}" "\<not> window_alive s'"
    by blast
  from first_close_unique [OF first m(1)] have "m = n" by simp
  with m s' show "\<exists>s'. main p e fuel = Some (0, s') \<and>
            trace s' = startup_calls p e @ loop_calls p e 0 (Suc n) @ cleanup_calls p e \<and>
            draw_calls (trace s') = replicate (Suc n) (the_draw_call p) \<and>
            objects s' = {} \<and> \<not> window_alive s'"
    by (simp del: replicate_Suc)
next
  show "cleanup_calls Triangle e =
     [GlDeleteVertexArrays 1 (the_VAO e), GlDeleteBuffers 1 (the_VBO e),
      GlDeleteProgram (the_program e), GlfwTerminate]"
    by (simp add: cleanup_calls_def the_EBO_def)
next
  show "cleanup_calls Rectangle e =
     [GlDeleteVertexArrays 1 (the_VAO e), GlDeleteBuffers 1 (the_VBO e),
      GlDeleteBuffers 1 (glGenBuffers_result e 1),
      GlDeleteProgram (the_program e), GlfwTerminate]"
    by (simp add: cleanup_calls_def the_EBO_def)
qed

theorem escape_ends_the_loop_witness:
  "should_close (processInput demo_env 2 demo_state) \<and>
   render_loop Rectangle demo_env 3 1 (Suc 0) (Suc 2) (loop_body Rectangle demo_env 3 1 2 demo_state) =
     Some (emit GlfwWindowShouldClose (loop_body Rectangle demo_env 3 1 2 demo_state)) \<and>
   should_close (emit GlfwWindowShouldClose (loop_body Rectangle demo_env 3 1 2 demo_state)) \<and>
   (\<exists>s0. startup Rectangle demo_env = Inr (3, 1, 1, Some 2, s0) \<and>
         objects s0 = {ShaderProgram 3, VertexArray 1, Buffer 1, Buffer 2}) \<and>
   (\<exists>s'. main Rectangle demo_env 4 = Some (0, s') \<and>
         draw_calls (trace s') = [GlDrawElements 6 0, GlDrawElements 6 0, GlDrawElements 6 0] \<and>
         objects s' = {}) \<and>
   main Rectangle (demo_env\<lparr>frames := (\<lambda>i. \<lparr>escape_pressed = False, close_requested = False,
      resize_events = []\<rparr>)\<rparr>) 100 = None"
proof -
  let ?quiet = "demo_env\<lparr>frames := (\<lambda>i. \<lparr>escape_pressed = False, close_requested = False,
      resize_events = []\<rparr>)\<rparr>"
  have esc: "escape_pressed (frames demo_env 2)" by (simp add: demo_env_def)
  have ok: "glfwCreateWindow_result demo_env \<and> gladLoadGLLoader_result demo_env"
    by (simp add: demo_env_def)
  have names: "the_program demo_env = 3" "the_VAO demo_env = 1" "the_VBO demo_env = 1"
      "the_EBO Rectangle demo_env = Some 2"
    by (simp_all add: the_program_def the_VAO_def the_VBO_def the_EBO_def demo_env_def)
  then have valid: "names_valid Rectangle demo_env"
    by (simp add: names_valid_def)
  have run: "\<forall>j<2. \<not> closes demo_env j" "2 + 2 \<le> (4::nat)"
    by (simp_all add: closes_def demo_env_def)
  have quiet: "glfwCreateWindow_result ?quiet \<and> gladLoadGLLoader_result ?quiet \<and>
      (\<forall>j. \<not> closes ?quiet j)"
    by (simp add: closes_def demo_env_def)
  note t = escape_ends_the_loop [where p = Rectangle and shaderProgram = 3 and VAO = 1
      and s = demo_state]
  note d = t [where e = demo_env and i = 2 and n = 2]
  from d [where fuel = 0] esc
  have "should_close (processInput demo_env 2 demo_state)"
    and last: "render_loop Rectangle demo_env 3 1 (Suc 0) (Suc 2)
        (loop_body Rectangle demo_env 3 1 2 demo_state) =
      Some (emit GlfwWindowShouldClose (loop_body Rectangle demo_env 3 1 2 demo_state))"
    by blast+
  moreover
  from escape_ends_the_loop [where p = Rectangle and shaderProgram = 3 and VAO = 1
      and e = demo_env and fuel = "Suc 0" and i = "Suc 2"
      and s = "loop_body Rectangle demo_env 3 1 2 demo_state"] last
  have "should_close (emit GlfwWindowShouldClose (loop_body Rectangle demo_env 3 1 2 demo_state))"
    by blast
  moreover from d [where fuel = 4] ok valid names
  have "\<exists>s0. startup Rectangle demo_env = Inr (3, 1, 1, Some 2, s0) \<and>
         objects s0 = {ShaderProgram 3, VertexArray 1, Buffer 1, Buffer 2}"
    by (auto simp add: geometry_objects_def)
  moreover from d [where fuel = 4] ok esc run
  have "\<exists>s'. main Rectangle demo_env 4 = Some (0, s') \<and>
         draw_calls (trace s') = [GlDrawElements 6 0, GlDrawElements 6 0, GlDrawElements 6 0] \<and>
         objects s' = {}"
    by (auto simp add: the_draw_call_def numeral_3_eq_3)
  moreover from t [where e = ?quiet and fuel = 100 and i = 0 and n = 0] quiet
  have "main Rectangle ?quiet 100 = None"
    by blast
  ultimately show ?thesis by blast
qed

text \<open>
  C4. Every iteration of the render loop makes exactly the calls \<open>frame_calls\<close>, in
  that order: the Escape-key poll (and the setting of the close flag if the key is
  down), \<^verbatim>\<open>glClearColor\<close> with the fixed colour, \<^verbatim>\<open>glClear\<close>,
  \<^verbatim>\<open>glUseProgram\<close>, \<^verbatim>\<open>glBindVertexArray\<close>, one draw call, \<^verbatim>\<open>glfwSwapBuffers\<close>,
  \<^verbatim>\<open>glfwPollEvents\<close> and, inside it, the resize responder's calls. The draw call is
  \<^verbatim>\<open>glDrawArrays(GL_TRIANGLES, 0, 3)\<close> in the triangle program and
  \<^verbatim>\<open>glDrawElements(GL_TRIANGLES, 6, GL_UNSIGNED_INT, 0)\<close> in the rectangle program.
  A run of \<^verbatim>\<open>main\<close> through the loop consists of the start-up calls, \<open>k\<close> such
  iterations for the frames \<open>0\<close> to \<open>k - 1\<close>, and the cleanup calls, and makes
  exactly \<open>k\<close> draw calls.
\<close>

theorem render_iteration:
  "(resize_callback s \<longrightarrow>
      trace (loop_body p e (the_program e) (the_VAO e) i s) = trace s @ frame_calls p e i) \<and>
   frame_calls p e i =
     [GlfwGetKey] @
     (if escape_pressed (frames e i) then [GlfwSetWindowShouldClose True] else []) @
     [GlClearColor clear_red clear_red clear_blue 1, GlClear,
      GlUseProgram (the_program e), GlBindVertexArray (the_VAO e),
      the_draw_call p, GlfwSwapBuffers, GlfwPollEvents] @
     map (\<lambda>(width, height). GlViewport 0 0 width height) (resize_events (frames e i)) \<and>
   draw_calls (frame_calls p e i) = [the_draw_call p] \<and>
   the_draw_call Triangle = GlDrawArrays 0 3 \<and>
   the_draw_call Rectangle = GlDrawElements 6 0 \<and>
   (glfwCreateWindow_result e \<and> gladLoadGLLoader_result e \<longrightarrow>
      (\<forall>status s'. main p e fuel = Some (status, s') \<longrightarrow>
         (\<exists>k. trace s' = startup_calls p e @
                 concat (map (\<lambda>j. GlfwWindowShouldClose # frame_calls p e j) [0..<k]) @
                 [GlfwWindowShouldClose] @ cleanup_calls p e \<and>
              draw_calls (trace s') = replicate k (the_draw_call p))))"
proof (intro conjI impI allI)
  assume "resize_callback s"
  from loop_body_effect [OF this, of p e i]
  show "trace (loop_body p e (the_program e) (the_VAO e) i s) = trace s @ frame_calls p e i"
    by simp
next
  fix status s'
  assume "glfwCreateWindow_result e \<and> gladLoadGLLoader_result e"
    and ret: "main p e fuel = Some (status, s')"
  then have "glfwCreateWindow_result e" "gladLoadGLLoader_result e" by simp_all
  from main_effect [OF this ret] obtain n where
    t: "trace s' = startup_calls p e @ loop_calls p e 0 (Suc n) @ cleanup_calls p e"
    by blast
  then have "draw_calls (trace s') = replicate (Suc n) (the_draw_call p)"
    by (simp del: replicate_Suc)
  moreover from t have "trace s' = startup_calls p e @
      concat (map (\<lambda>j. GlfwWindowShouldClose # frame_calls p e j) [0..<Suc n]) @
      [GlfwWindowShouldClose] @ cleanup_calls p e"
    by (simp add: loop_calls_def del: upt_Suc)
  ultimately show "\<exists>k. trace s' = startup_calls p e @
                 concat (map (\<lambda>j. GlfwWindowShouldClose # frame_calls p e j) [0..<k]) @
                 [GlfwWindowShouldClose] @ cleanup_calls p e \<and>
              draw_calls (trace s') = replicate k (the_draw_call p)"
    by blast
next
  show "frame_calls p e i =
     [GlfwGetKey] @
     (if escape_pressed (frames e i) then [GlfwSetWindowShouldClose True] else []) @
     [GlClearColor clear_red clear_red clear_blue 1, GlClear,
      GlUseProgram (the_program e), GlBindVertexArray (the_VAO e),
      the_draw_call p, GlfwSwapBuffers, GlfwPollEvents] @
     map (\<lambda>(width, height). GlViewport 0 0 width height) (resize_events (frames e i))"
    by (simp add: frame_calls_def)
next
  show "draw_calls (frame_calls p e i) = [the_draw_call p]"
    by simp
next
  show "the_draw_call Triangle = GlDrawArrays 0 3" and "the_draw_call Rectangle = GlDrawElements 6 0"
    by (simp_all add: the_draw_call_def)
qed

theorem render_iteration_witness:
  "trace (loop_body Rectangle demo_env 3 1 1 demo_state) =
     [GlfwGetKey, GlClearColor clear_red clear_red clear_blue 1, GlClear, GlUseProgram 3,
      GlBindVertexArray 1, GlDrawElements 6 0, GlfwSwapBuffers, GlfwPollEvents,
      GlViewport 0 0 1024 768] \<and>
   (\<exists>s k. main Triangle demo_env 4 = Some (0, s) \<and>
          draw_calls (trace s) = replicate k (GlDrawArrays 0 3))"
proof -
  have ok: "glfwCreateWindow_result demo_env" "gladLoadGLLoader_result demo_env"
    by (simp_all add: demo_env_def)
  have names: "the_program demo_env = 3" "the_VAO demo_env = 1"
    by (simp_all add: the_program_def the_VAO_def demo_env_def)
  have rc: "resize_callback demo_state" by (simp add: demo_state_def)
  have "closes demo_env 2" by (simp add: closes_def demo_env_def)
  from main_returns [OF ok this, of 4 Triangle]
  obtain s where s: "main Triangle demo_env 4 = Some (0, s)" by auto
  note r = render_iteration [where e = demo_env and s = demo_state and i = 1 and fuel = 4]
  have fr: "escape_pressed (frames demo_env 1) = False"
      "resize_events (frames demo_env 1) = [(1024, 768)]"
    by (simp_all add: demo_env_def)
  have tr: "trace demo_state = []" by (simp add: demo_state_def)
  from r [where p = Rectangle] rc
  have body: "trace (loop_body Rectangle demo_env (the_program demo_env) (the_VAO demo_env) 1
        demo_state) = trace demo_state @ frame_calls Rectangle demo_env 1"
    by blast
  from r [where p = Rectangle]
  have calls: "frame_calls Rectangle demo_env 1 =
     [GlfwGetKey] @
     (if escape_pressed (frames demo_env 1) then [GlfwSetWindowShouldClose True] else []) @
     [GlClearColor clear_red clear_red clear_blue 1, GlClear,
      GlUseProgram (the_program demo_env), GlBindVertexArray (the_VAO demo_env),
      the_draw_call Rectangle, GlfwSwapBuffers, GlfwPollEvents] @
     map (\<lambda>(width, height). GlViewport 0 0 width height) (resize_events (frames demo_env 1))"
    and dc: "the_draw_call Rectangle = GlDrawElements 6 0"
    by blast+
  from body [unfolded calls dc names fr tr]
  have "trace (loop_body Rectangle demo_env 3 1 1 demo_state) =
     [GlfwGetKey, GlClearColor clear_red clear_red clear_blue 1, GlClear, GlUseProgram 3,
      GlBindVertexArray 1, GlDrawElements 6 0, GlfwSwapBuffers, GlfwPollEvents,
      GlViewport 0 0 1024 768]"
    by simp
  moreover from r [where p = Triangle] ok s
  have "\<exists>k. draw_calls (trace s) = replicate k (GlDrawArrays 0 3)"
    by auto
  ultimately show ?thesis using s by blast
qed

text \<open>
  C5. The four vertices of the rectangle program are the corners \<open>(0.5, 0.5)\<close>,
  \<open>(0.5, -0.5)\<close>, \<open>(-0.5, -0.5)\<close>, \<open>(-0.5, 0.5)\<close> and its index sequence is
  \<open>0, 1, 3, 1, 2, 3\<close>. The draw call selects two triangles, the corners 0, 1, 3 and the
  corners 1, 2, 3. A point lies in the quad spanned by the corners (the square of the
  points with both coordinates between \<open>-0.5\<close> and \<open>0.5\<close>) if and only if it lies in
  at least one of the two triangles; no point is interior to both; and the points the
  two triangles share are exactly those of the diagonal from corner 1 to corner 3. Each
  triangle, given by its edges, is the convex hull of its three corners.
\<close>

theorem rectangle_is_two_triangles:
  "map (vertex_point (vertices Rectangle)) [0, 1, 2, 3] = map Some corners \<and>
   corners = [(0.5, 0.5), (0.5, - 0.5), (- 0.5, - 0.5), (- 0.5, 0.5)] \<and>
   indices = [0, 1, 3, 1, 2, 3] \<and>
   draw_elements_triangles (vertices Rectangle) indices 6 =
     [(Some (corners ! 0), Some (corners ! 1), Some (corners ! 3)),
      (Some (corners ! 1), Some (corners ! 2), Some (corners ! 3))] \<and>
   first_triangle = (corners ! 0, corners ! 1, corners ! 3) \<and>
   second_triangle = (corners ! 1, corners ! 2, corners ! 3) \<and>
   the_quad = (corners ! 0, corners ! 1, corners ! 2, corners ! 3) \<and>
   in_quad the_quad q = (\<bar>fst q\<bar> \<le> 0.5 \<and> \<bar>snd q\<bar> \<le> 0.5) \<and>
   in_quad the_quad q = (in_triangle first_triangle q \<or> in_triangle second_triangle q) \<and>
   \<not> (interior first_triangle q \<and> interior second_triangle q) \<and>
   (in_triangle first_triangle q \<and> in_triangle second_triangle q) =
     on_segment (corners ! 1) (corners ! 3) q \<and>
   hull3 first_triangle q = in_triangle first_triangle q \<and>
   hull3 second_triangle q = in_triangle second_triangle q"
proof -
  obtain x y where q: "q = (x, y)" by (cases q)
  have "in_quad the_quad q = (\<bar>fst q\<bar> \<le> 0.5 \<and> \<bar>snd q\<bar> \<le> 0.5)"
    by (simp add: q the_quad_iff)
  moreover have "in_quad the_quad q = (in_triangle first_triangle q \<or> in_triangle second_triangle q)"
    unfolding q the_quad_iff first_triangle_iff second_triangle_iff by (auto simp add: abs_le_iff)
  moreover have "\<not> (interior first_triangle q \<and> interior second_triangle q)"
    unfolding q first_interior_iff second_interior_iff by auto
  moreover have "(in_triangle first_triangle q \<and> in_triangle second_triangle q) =
      on_segment (corners ! 1) (corners ! 3) q"
    unfolding q diagonal_iff first_triangle_iff second_triangle_iff by (auto simp add: abs_le_iff)
  moreover have "hull3 first_triangle q = in_triangle first_triangle q"
    and "hull3 second_triangle q = in_triangle second_triangle q"
    by (simp_all add: q first_hull_iff second_hull_iff)
  ultimately show ?thesis
    using rectangle_vertex_points rectangle_triangles
    by (simp add: corners_def indices_def first_triangle_def second_triangle_def the_quad_def)
qed

theorem rectangle_is_two_triangles_witness:
  "in_quad the_quad (0.25, 0.25) \<and> in_triangle first_triangle (0.25, 0.25) \<and>
   \<not> in_triangle second_triangle (0.25, 0.25) \<and>
   in_triangle first_triangle (0.25, - 0.25) \<and> in_triangle second_triangle (0.25, - 0.25) \<and>
   \<not> interior first_triangle (0.25, - 0.25) \<and>
   \<not> in_quad the_quad (1, 0) \<and> \<not> in_triangle first_triangle (1, 0) \<and>
   \<not> in_triangle second_triangle (1, 0)"
proof -
  note t = rectangle_is_two_triangles
  have d: "on_segment (corners ! 1) (corners ! 3) (0.25, - 0.25)"
      "\<not> on_segment (corners ! 1) (corners ! 3) (0.25, 0.25)"
    by (simp_all only: diagonal_iff) simp_all
  have f: "in_triangle first_triangle (0.25, 0.25)"
    by (simp add: first_triangle_iff)
  from t [of "(0.25, 0.25)"]
  have "in_quad the_quad (0.25, 0.25) =
      (in_triangle first_triangle (0.25, 0.25) \<or> in_triangle second_triangle (0.25, 0.25))"
    and "(in_triangle first_triangle (0.25, 0.25) \<and> in_triangle second_triangle (0.25, 0.25)) =
      on_segment (corners ! 1) (corners ! 3) (0.25, 0.25)"
    by blast+
  with f d(2) have a: "in_quad the_quad (0.25, 0.25)" "\<not> in_triangle second_triangle (0.25, 0.25)"
    by blast+
  from t [of "(0.25, - 0.25)"]
  have "(in_triangle first_triangle (0.25, - 0.25) \<and> in_triangle second_triangle (0.25, - 0.25)) =
      on_segment (corners ! 1) (corners ! 3) (0.25, - 0.25)"
    and "\<not> (interior first_triangle (0.25, - 0.25) \<and> interior second_triangle (0.25, - 0.25))"
    by blast+
  with d(1) have b: "in_triangle first_triangle (0.25, - 0.25)"
      "in_triangle second_triangle (0.25, - 0.25)"
    by blast+
  have c: "\<not> interior first_triangle (0.25, - 0.25)"
    by (simp add: first_interior_iff)
  from t [of "(1, 0)"]
  have q: "in_quad the_quad (1, 0) = (\<bar>fst (1::real, 0::real)\<bar> \<le> 0.5 \<and> \<bar>snd (1::real, 0::real)\<bar> \<le> 0.5)"
    and u: "in_quad the_quad (1, 0) =
      (in_triangle first_triangle (1, 0) \<or> in_triangle second_triangle (1, 0))"
    by blast+
  from q have "\<not> in_quad the_quad (1, 0)" by simp
  with u have e: "\<not> in_quad the_quad (1, 0)" "\<not> in_triangle first_triangle (1, 0)"
      "\<not> in_triangle second_triangle (1, 0)"
    by blast+
  from f a b c e show ?thesis by blast
qed

text \<open>
  C6. For a resize event with the dimensions \<open>(W, H)\<close>, neither of them negative, the
  resize responder sets the viewport to the origin \<open>(0, 0)\<close> and the size \<open>(W, H)\<close>.
  Its only call is \<^verbatim>\<open>glViewport(0, 0, W, H)\<close>; the buffer contents, the objects, the
  bindings, the close flag and every other field of the state but the viewport stay as
  they are. The viewport it leaves does not depend on the state it was invoked in, so
  nothing is carried from one invocation to the next. The same holds of
  \<^verbatim>\<open>glfwPollEvents\<close>, which runs the responder for every resize event, and of the
  whole render loop: the buffer contents at the end are those at the beginning.
\<close>

theorem resize_responder:
  "(0 \<le> W \<and> 0 \<le> H \<longrightarrow> viewport (framebuffer_size_callback W H s) = (0, 0, W, H)) \<and>
   trace (framebuffer_size_callback W H s) = trace s @ [GlViewport 0 0 W H] \<and>
   buffer_store (framebuffer_size_callback W H s) = buffer_store s \<and>
   should_close (framebuffer_size_callback W H s) = should_close s \<and>
   loop_frame s (framebuffer_size_callback W H s) \<and>
   (0 \<le> W \<and> 0 \<le> H \<longrightarrow>
      viewport (framebuffer_size_callback W H t) = viewport (framebuffer_size_callback W H s)) \<and>
   (resize_callback s \<and> resize_events (frames e i) = rs @ [(W, H)] \<and> 0 \<le> W \<and> 0 \<le> H \<longrightarrow>
      viewport (glfwPollEvents e i s) = (0, 0, W, H) \<and>
      buffer_store (glfwPollEvents e i s) = buffer_store s) \<and>
   (resize_callback s \<and> render_loop p e (the_program e) (the_VAO e) fuel i s = Some s' \<longrightarrow>
      buffer_store s' = buffer_store s \<and> objects s' = objects s)"
proof (intro conjI impI)
  assume "resize_callback s \<and> resize_events (frames e i) = rs @ [(W, H)] \<and> 0 \<le> W \<and> 0 \<le> H"
  then have a: "resize_callback s" "resize_events (frames e i) = rs @ [(W, H)]" "0 \<le> W" "0 \<le> H"
    by simp_all
  from glfwPollEvents_last_resize [OF a]
  show "viewport (glfwPollEvents e i s) = (0, 0, W, H)"
    and "buffer_store (glfwPollEvents e i s) = buffer_store s"
    by simp_all
next
  assume "resize_callback s \<and> render_loop p e (the_program e) (the_VAO e) fuel i s = Some s'"
  then have a: "render_loop p e (the_program e) (the_VAO e) fuel i s = Some s'" "resize_callback s"
    by simp_all
  from render_loop_effect [OF a]
  show "buffer_store s' = buffer_store s" and "objects s' = objects s"
    by (auto simp add: loop_frame_def)
next
  show "loop_frame s (framebuffer_size_callback W H s)"
    by (rule framebuffer_size_callback_effect)
next
  show "buffer_store (framebuffer_size_callback W H s) = buffer_store s"
    using framebuffer_size_callback_effect(3) [of s W H] by (simp add: loop_frame_def)
qed (simp_all add: framebuffer_size_callback_effect)

theorem resize_responder_witness:
  "viewport (framebuffer_size_callback 1024 768 demo_state) = (0, 0, 1024, 768) \<and>
   buffer_store (framebuffer_size_callback 1024 768 demo_state) 1 = Some (Floats (vertices Rectangle)) \<and>
   buffer_store (framebuffer_size_callback 1024 768 demo_state) 2 = Some (UInts indices) \<and>
   viewport (glfwPollEvents demo_env 1 demo_state) = (0, 0, 1024, 768) \<and>
   viewport (framebuffer_size_callback 1024 768 (framebuffer_size_callback 640 480 demo_state)) =
     viewport (framebuffer_size_callback 1024 768 demo_state) \<and>
   (\<exists>s'. render_loop Rectangle demo_env 3 1 4 0 demo_state = Some s' \<and>
         buffer_store s' 1 = Some (Floats (vertices Rectangle)) \<and>
         buffer_store s' 2 = Some (UInts indices))"
proof -
  have dims: "(0::int) \<le> 1024 \<and> (0::int) \<le> 768" by simp
  have ev: "resize_callback demo_state \<and> resize_events (frames demo_env 1) = [] @ [(1024, 768)] \<and>
      (0::int) \<le> 1024 \<and> (0::int) \<le> 768"
    by (simp add: demo_state_def demo_env_def)
  have store: "buffer_store demo_state 1 = Some (Floats (vertices Rectangle))"
      "buffer_store demo_state 2 = Some (UInts indices)"
    by (simp_all add: demo_state_def)
  note r = resize_responder [where W = 1024 and H = 768 and e = demo_env and i = 1 and rs = "[]"]
  from r [where s = demo_state] dims ev
  have "viewport (framebuffer_size_callback 1024 768 demo_state) = (0, 0, 1024, 768)"
    and "buffer_store (framebuffer_size_callback 1024 768 demo_state) = buffer_store demo_state"
    and "viewport (glfwPollEvents demo_env 1 demo_state) = (0, 0, 1024, 768)"
    by blast+
  moreover from r [where s = demo_state and t = "framebuffer_size_callback 640 480 demo_state"] dims
  have "viewport (framebuffer_size_callback 1024 768 (framebuffer_size_callback 640 480 demo_state)) =
     viewport (framebuffer_size_callback 1024 768 demo_state)"
    by blast
  moreover have "\<exists>s'. render_loop Rectangle demo_env 3 1 4 0 demo_state = Some s' \<and>
         buffer_store s' 1 = Some (Floats (vertices Rectangle)) \<and>
         buffer_store s' 2 = Some (UInts indices)"
  proof -
    have names: "the_program demo_env = 3" "the_VAO demo_env = 1"
      by (simp_all add: the_program_def the_VAO_def demo_env_def)
    have rc: "resize_callback demo_state" by (simp add: demo_state_def)
    have "closes demo_env (0 + 2)" by (simp add: closes_def demo_env_def)
    from render_loop_returns [OF this _ rc, of 4 Rectangle]
    obtain s' where s': "render_loop Rectangle demo_env (the_program demo_env) (the_VAO demo_env)
        4 0 demo_state = Some s'"
      by auto
    from resize_responder [where s = demo_state and p = Rectangle and e = demo_env
        and fuel = 4 and i = 0 and s' = s'] rc s'
    have "buffer_store s' = buffer_store demo_state"
      by blast
    with s' [unfolded names] store show ?thesis by simp
  qed
  ultimately show ?thesis using store by simp
qed

text \<open>
  C7. The array \<^verbatim>\<open>infoLog\<close> has 512 elements. Every info-log retrieval that
  \<^verbatim>\<open>main\<close> makes passes the buffer size 512, stores at most 512 characters (the
  terminating null included) and so never writes past the end of the array: no run of
  \<^verbatim>\<open>main\<close> ends with an overflow. The log string that a diagnostic prints after a
  retrieval is \<open>printed_log\<close> of the driver's log, which has at most 511 characters.
\<close>

theorem info_log_within_bounds:
  "infoLog_size = 512 \<and>
   length (info_log_bytes 512 msg) \<le> infoLog_size \<and>
   overflow (glGetShaderInfoLog e ty shader 512 s) = overflow s \<and>
   overflow (glGetProgramInfoLog e prog 512 s) = overflow s \<and>
   c_str (infoLog (glGetShaderInfoLog e ty shader 512 s)) = printed_log (shader_log e ty) \<and>
   c_str (infoLog (glGetProgramInfoLog e prog 512 s)) = printed_log (program_log e) \<and>
   length (printed_log msg) \<le> 511 \<and>
   (\<forall>status s'. main p e fuel = Some (status, s') \<longrightarrow>
      \<not> overflow s' \<and> set (info_log_sizes (trace s')) \<subseteq> {512}) \<and>
   (glfwCreateWindow_result e \<and> gladLoadGLLoader_result e \<longrightarrow>
      (\<exists>s'. startup p e = Inr (the_program e, the_VAO e, the_VBO e, the_EBO p e, s') \<and>
            \<not> overflow s' \<and>
            info_log_sizes (trace s') =
              (if compile_status e GL_VERTEX_SHADER = 0 then [512] else []) @
              (if compile_status e GL_FRAGMENT_SHADER = 0 then [512] else []) @
              (if link_status e = 0 then [512] else []) \<and>
            printed (trace s') =
              diagnostic ''Vertex Shader Error:'' (compile_status e GL_VERTEX_SHADER)
                (shader_log e GL_VERTEX_SHADER) @
              diagnostic ''Fragment Shader Error:'' (compile_status e GL_FRAGMENT_SHADER)
                (shader_log e GL_FRAGMENT_SHADER) @
              diagnostic ''Shader Link Error:'' (link_status e) (program_log e))) \<and>
   diagnostic header status msg =
     (if status = 0 then [header @ newline, printed_log msg, newline] else [])"
proof (intro conjI impI allI)
  fix status s'
  assume "main p e fuel = Some (status, s')"
  from main_retrievals [OF this]
  show "\<not> overflow s'" and "set (info_log_sizes (trace s')) \<subseteq> {512}"
    by simp_all
next
  assume "glfwCreateWindow_result e \<and> gladLoadGLLoader_result e"
  then have ok: "glfwCreateWindow_result e" "gladLoadGLLoader_result e" by simp_all
  from startup_success [OF ok, of p]
  show "\<exists>s'. startup p e = Inr (the_program e, the_VAO e, the_VBO e, the_EBO p e, s') \<and>
            \<not> overflow s' \<and>
            info_log_sizes (trace s') =
              (if compile_status e GL_VERTEX_SHADER = 0 then [512] else []) @
              (if compile_status e GL_FRAGMENT_SHADER = 0 then [512] else []) @
              (if link_status e = 0 then [512] else []) \<and>
            printed (trace s') =
              diagnostic ''Vertex Shader Error:'' (compile_status e GL_VERTEX_SHADER)
                (shader_log e GL_VERTEX_SHADER) @
              diagnostic ''Fragment Shader Error:'' (compile_status e GL_FRAGMENT_SHADER)
                (shader_log e GL_FRAGMENT_SHADER) @
              diagnostic ''Shader Link Error:'' (link_status e) (program_log e)"
    by (auto simp add: loop_entry_def info_log_sizes_startup diagnostics_def)
qed (simp_all add: infoLog_size_def length_info_log_bytes [of 512, simplified]
      retrieval_effect length_printed_log diagnostic_def)

theorem info_log_within_bounds_witness:
  "(\<exists>s. main Triangle broken_env 4 = Some (0, s) \<and> \<not> overflow s \<and>
        set (info_log_sizes (trace s)) \<subseteq> {512}) \<and>
   (\<exists>s. startup Triangle broken_env = Inr (3, 1, 1, None, s) \<and>
        info_log_sizes (trace s) = [512, 512]) \<and>
   length (printed_log (replicate 600 (CHR ''x''))) \<le> 511"
proof -
  have ok: "glfwCreateWindow_result broken_env" "gladLoadGLLoader_result broken_env"
    by (simp_all add: broken_env_def demo_env_def)
  have names: "the_program broken_env = 3" "the_VAO broken_env = 1" "the_VBO broken_env = 1"
      "the_EBO Triangle broken_env = None"
    by (simp_all add: the_program_def the_VAO_def the_VBO_def the_EBO_def broken_env_def
        demo_env_def)
  have st: "compile_status broken_env GL_VERTEX_SHADER = 0"
      "compile_status broken_env GL_FRAGMENT_SHADER \<noteq> 0" "link_status broken_env = 0"
    by (simp_all add: broken_env_def demo_env_def)
  have "closes broken_env 2" by (simp add: closes_def broken_env_def demo_env_def)
  from main_returns [OF ok this, of 4 Triangle]
  obtain s where s: "main Triangle broken_env 4 = Some (0, s)" by auto
  note t = info_log_within_bounds [where e = broken_env and p = Triangle and fuel = 4
      and msg = "replicate 600 (CHR ''x'')"]
  from t s have "\<exists>s. main Triangle broken_env 4 = Some (0, s) \<and> \<not> overflow s \<and>
        set (info_log_sizes (trace s)) \<subseteq> {512}"
    by blast
  moreover from t ok
  have "\<exists>s'. startup Triangle broken_env =
          Inr (the_program broken_env, the_VAO broken_env, the_VBO broken_env,
               the_EBO Triangle broken_env, s') \<and>
        info_log_sizes (trace s') =
          (if compile_status broken_env GL_VERTEX_SHADER = 0 then [512] else []) @
          (if compile_status broken_env GL_FRAGMENT_SHADER = 0 then [512] else []) @
          (if link_status broken_env = 0 then [512] else [])"
    by blast
  then have "\<exists>s. startup Triangle broken_env = Inr (3, 1, 1, None, s) \<and>
        info_log_sizes (trace s) = [512, 512]"
    unfolding names using st by simp
  moreover from t have "length (printed_log (replicate 600 (CHR ''x''))) \<le> 511"
    by blast
  ultimately show ?thesis by blast
qed

text \<open>
  C9. The two fatal paths tear down differently. When window creation fails,
  \<^verbatim>\<open>glfwTerminate\<close> is the last call before the return of \<open>-1\<close>, and neither the
  library nor a window is left. When GPU function loading fails, \<^verbatim>\<open>main\<close> returns
  \<open>-1\<close> without any call of \<^verbatim>\<open>glfwTerminate\<close>: the window is still alive and the
  windowing library is as \<^verbatim>\<open>glfwInit\<close> left it, initialised if \<^verbatim>\<open>glfwInit\<close>
  had succeeded.
\<close>

theorem fatal_paths_teardown:
  "(\<not> glfwCreateWindow_result e \<longrightarrow>
      (\<exists>s. main p e fuel = Some (- 1, s) \<and> last (trace s) = GlfwTerminate \<and>
           \<not> glfw_initialised s \<and> \<not> window_alive s)) \<and>
   (glfwCreateWindow_result e \<and> \<not> gladLoadGLLoader_result e \<longrightarrow>
      (\<exists>s. main p e fuel = Some (- 1, s) \<and> GlfwTerminate \<notin> set (trace s) \<and>
           window_alive s \<and> glfw_initialised s = glfwInit_result e))"
proof (intro conjI impI)
  assume "\<not> glfwCreateWindow_result e"
  from main_window_failure [OF this, of p fuel]
  show "\<exists>s. main p e fuel = Some (- 1, s) \<and> last (trace s) = GlfwTerminate \<and>
           \<not> glfw_initialised s \<and> \<not> window_alive s"
    by simp
next
  assume "glfwCreateWindow_result e \<and> \<not> gladLoadGLLoader_result e"
  then have "glfwCreateWindow_result e" "\<not> gladLoadGLLoader_result e" by simp_all
  from main_glad_failure [OF this, of p fuel]
  show "\<exists>s. main p e fuel = Some (- 1, s) \<and> GlfwTerminate \<notin> set (trace s) \<and>
           window_alive s \<and> glfw_initialised s = glfwInit_result e"
    by (auto simp add: window_calls_def window_hints_def)
qed

theorem fatal_paths_teardown_witness:
  "(\<exists>s. main Triangle (demo_env\<lparr>glfwCreateWindow_result := False\<rparr>) 1 = Some (- 1, s) \<and>
        last (trace s) = GlfwTerminate \<and> \<not> glfw_initialised s \<and> \<not> window_alive s) \<and>
   (\<exists>s. main Triangle (demo_env\<lparr>gladLoadGLLoader_result := False\<rparr>) 1 = Some (- 1, s) \<and>
        GlfwTerminate \<notin> set (trace s) \<and> window_alive s \<and> glfw_initialised s)"
proof -
  have a: "\<not> glfwCreateWindow_result (demo_env\<lparr>glfwCreateWindow_result := False\<rparr>)"
    by simp
  have b: "glfwCreateWindow_result (demo_env\<lparr>gladLoadGLLoader_result := False\<rparr>) \<and>
      \<not> gladLoadGLLoader_result (demo_env\<lparr>gladLoadGLLoader_result := False\<rparr>)"
    by (simp add: demo_env_def)
  have c: "glfwInit_result (demo_env\<lparr>gladLoadGLLoader_result := False\<rparr>)"
    by (simp add: demo_env_def)
  from fatal_paths_teardown [where e = "demo_env\<lparr>glfwCreateWindow_result := False\<rparr>"
      and p = Triangle and fuel = 1] a
  have "\<exists>s. main Triangle (demo_env\<lparr>glfwCreateWindow_result := False\<rparr>) 1 = Some (- 1, s) \<and>
        last (trace s) = GlfwTerminate \<and> \<not> glfw_initialised s \<and> \<not> window_alive s"
    by blast
  moreover
  from fatal_paths_teardown [where e = "demo_env\<lparr>gladLoadGLLoader_result := False\<rparr>"
      and p = Triangle and fuel = 1] b c
  have "\<exists>s. main Triangle (demo_env\<lparr>gladLoadGLLoader_result := False\<rparr>) 1 = Some (- 1, s) \<and>
        GlfwTerminate \<notin> set (trace s) \<and> window_alive s \<and> glfw_initialised s"
    by auto
  ultimately show ?thesis by blast
qed

text \<open>
  C10. The result of \<^verbatim>\<open>glfwInit\<close> is discarded. Whatever it is, the calls of
  \<^verbatim>\<open>main\<close> begin with \<^verbatim>\<open>glfwInit\<close>, the window hints and the attempt to create
  the window; and with everything else the libraries answer left as it is, a different
  result of \<^verbatim>\<open>glfwInit\<close> changes neither the exit status nor a single call of
  \<^verbatim>\<open>main\<close>. So a failed initialisation shows only if window creation fails.
\<close>

theorem glfwInit_result_discarded:
  "take (length (window_calls p e)) (startup_trace (startup p e)) = window_calls p e \<and>
   window_calls p e =
     [GlfwInit] @ window_hints e @ [GlfwCreateWindow SCR_WIDTH SCR_HEIGHT (window_title p)] \<and>
   exit_status (main p (e\<lparr>glfwInit_result := b\<rparr>) fuel) = exit_status (main p e fuel) \<and>
   calls_made (main p (e\<lparr>glfwInit_result := b\<rparr>) fuel) = calls_made (main p e fuel)"
proof -
  let ?e = "e\<lparr>glfwInit_result := b\<rparr>"
  have e: "e = ?e\<lparr>glfwInit_result := glfwInit_result e\<rparr>" by simp
  have prefix: "take (length (window_calls p e)) (startup_trace (startup p e)) = window_calls p e"
  proof (cases "glfwCreateWindow_result e")
    case False
    then show ?thesis by (simp add: startup_window_failure startup_trace_def)
  next
    case w: True
    show ?thesis
    proof (cases "gladLoadGLLoader_result e")
      case False
      with w show ?thesis by (simp add: startup_glad_failure startup_trace_def)
    next
      case True
      from startup_success [OF w True, of p] show ?thesis
        by (auto simp add: startup_trace_def loop_entry_def startup_calls_def)
    qed
  qed
  have same: "exit_status (main p ?e fuel) = exit_status (main p e fuel) \<and>
      calls_made (main p ?e fuel) = calls_made (main p e fuel)"
  proof (cases "glfwCreateWindow_result e")
    case False
    then have "\<not> glfwCreateWindow_result ?e" by simp
    from main_window_failure [OF this, of p fuel] main_window_failure [OF False, of p fuel]
    show ?thesis by (simp add: exit_status_def calls_made_def)
  next
    case w: True
    then have w': "glfwCreateWindow_result ?e" by simp
    show ?thesis
    proof (cases "gladLoadGLLoader_result e")
      case False
      then have "\<not> gladLoadGLLoader_result ?e" by simp
      from main_glad_failure [OF w' this, of p fuel] main_glad_failure [OF w False, of p fuel]
      show ?thesis by (simp add: exit_status_def calls_made_def)
    next
      case g: True
      then have g': "gladLoadGLLoader_result ?e" by simp
      show ?thesis
      proof (cases "main p e fuel")
        case (Some r)
        obtain status s where r: "r = (status, s)" by (cases r)
        from main_same_calls [OF w g Some [unfolded r], of b] Some r show ?thesis
          by (auto simp add: exit_status_def calls_made_def)
      next
        case None
        have "main p ?e fuel = None"
        proof (cases "main p ?e fuel")
          case (Some r)
          obtain status s where r: "r = (status, s)" by (cases r)
          from main_same_calls [OF w' g' Some [unfolded r], of "glfwInit_result e"] None
          show ?thesis by simp
        qed simp
        with None show ?thesis by simp
      qed
    qed
  qed
  from prefix same show ?thesis by (simp add: window_calls_def)
qed

theorem glfwInit_result_discarded_witness:
  "exit_status (main Triangle (demo_env\<lparr>glfwInit_result := False\<rparr>) 4) = Some 0 \<and>
   calls_made (main Triangle (demo_env\<lparr>glfwInit_result := False\<rparr>) 4) =
     calls_made (main Triangle demo_env 4) \<and>
   take 5 (startup_trace (startup Triangle (demo_env\<lparr>glfwInit_result := False\<rparr>))) =
     [GlfwInit, GlfwWindowHint GLFW_CONTEXT_VERSION_MAJOR (Number 3),
      GlfwWindowHint GLFW_CONTEXT_VERSION_MINOR (Number 3),
      GlfwWindowHint GLFW_OPENGL_PROFILE GLFW_OPENGL_CORE_PROFILE,
      GlfwCreateWindow 800 600 ''OpenGL Beginner Renderer : My First OpenGL TRIANGLE'']"
proof -
  have ok: "glfwCreateWindow_result demo_env" "gladLoadGLLoader_result demo_env"
    by (simp_all add: demo_env_def)
  have "closes demo_env 2" by (simp add: closes_def demo_env_def)
  from main_returns [OF ok this, of 4 Triangle]
  have run: "exit_status (main Triangle demo_env 4) = Some 0"
    by (auto simp add: exit_status_def)
  have calls: "window_calls Triangle (demo_env\<lparr>glfwInit_result := False\<rparr>) =
     [GlfwInit, GlfwWindowHint GLFW_CONTEXT_VERSION_MAJOR (Number 3),
      GlfwWindowHint GLFW_CONTEXT_VERSION_MINOR (Number 3),
      GlfwWindowHint GLFW_OPENGL_PROFILE GLFW_OPENGL_CORE_PROFILE,
      GlfwCreateWindow 800 600 ''OpenGL Beginner Renderer : My First OpenGL TRIANGLE'']"
    by (simp add: window_calls_def window_hints_def demo_env_def SCR_WIDTH_def SCR_HEIGHT_def
        window_title_def)
  note t = glfwInit_result_discarded [where p = Triangle and fuel = 4]
  from t [where e = demo_env and b = False] run
  have "exit_status (main Triangle (demo_env\<lparr>glfwInit_result := False\<rparr>) 4) = Some 0"
    and "calls_made (main Triangle (demo_env\<lparr>glfwInit_result := False\<rparr>) 4) =
      calls_made (main Triangle demo_env 4)"
    by simp_all
  moreover from t [where e = "demo_env\<lparr>glfwInit_result := False\<rparr>" and b = False]
  have "take (length (window_calls Triangle (demo_env\<lparr>glfwInit_result := False\<rparr>)))
      (startup_trace (startup Triangle (demo_env\<lparr>glfwInit_result := False\<rparr>))) =
    window_calls Triangle (demo_env\<lparr>glfwInit_result := False\<rparr>)"
    by blast
  then have "take 5 (startup_trace (startup Triangle (demo_env\<lparr>glfwInit_result := False\<rparr>))) =
     [GlfwInit, GlfwWindowHint GLFW_CONTEXT_VERSION_MAJOR (Number 3),
      GlfwWindowHint GLFW_CONTEXT_VERSION_MINOR (Number 3),
      GlfwWindowHint GLFW_OPENGL_PROFILE GLFW_OPENGL_CORE_PROFILE,
      GlfwCreateWindow 800 600 ''OpenGL Beginner Renderer : My First OpenGL TRIANGLE'']"
    unfolding calls by (simp add: eval_nat_numeral)
  ultimately show ?thesis by blast
qed

end
